theory Spec2Isabelle
  imports Main "HOL-Library.Sublist"
begin

section \<open>Python values handled by the bridge\<close>

text \<open>
  Request bodies, vendor payloads and response bodies are JSON documents that the
  Python code handles as \<open>None\<close>, \<open>bool\<close>, \<open>int\<close>, \<open>str\<close>, \<open>list\<close> and \<open>dict\<close>
  values. A \<open>dict\<close> is an association list read with \<open>map_of\<close> (first binding of a
  key). A \<open>str\<close> is held as its UTF-8 byte sequence, one to four bytes per code point (a
  lone surrogate as the three bytes CPython's \<open>surrogatepass\<close> gives it): substring,
  prefix and suffix tests on the bytes agree with the tests on the code points. JSON
  numbers are modelled as integers.
\<close>

datatype json =
    JNull
  | JBool bool
  | JInt int
  | JStr string
  | JArr "json list"
  | JObj "(string \<times> json) list"

text \<open>A raised Python exception: its class name and \<open>str(e)\<close>.\<close>

datatype exn = Exn (exn_class: string) (exn_msg: string)

type_synonym bytes = string

text \<open>Python truthiness (\<open>if x\<close>, \<open>not x\<close>, \<open>x or y\<close>).\<close>

fun truthy :: "json \<Rightarrow> bool" where
  "truthy JNull = False"
| "truthy (JBool b) = b"
| "truthy (JInt i) = (i \<noteq> 0)"
| "truthy (JStr s) = (s \<noteq> [])"
| "truthy (JArr xs) = (xs \<noteq> [])"
| "truthy (JObj kvs) = (kvs \<noteq> [])"

fun type_name :: "json \<Rightarrow> string" where
  "type_name JNull = ''NoneType''"
| "type_name (JBool b) = ''bool''"
| "type_name (JInt i) = ''int''"
| "type_name (JStr s) = ''str''"
| "type_name (JArr xs) = ''list''"
| "type_name (JObj kvs) = ''dict''"

definition sq :: string where
  "sq = [CHR 0x27]"

definition dq :: char where
  "dq = CHR 0x22"

definition attribute_error :: "json \<Rightarrow> string \<Rightarrow> exn" where
  "attribute_error v a =
     Exn ''AttributeError''
       (sq @ type_name v @ sq @ '' object has no attribute '' @ sq @ a @ sq)"

text \<open>\<open>d.get(k)\<close> and \<open>d.get(k, default)\<close>: only a \<open>dict\<close> has the method.\<close>

definition py_get :: "json \<Rightarrow> string \<Rightarrow> json \<Rightarrow> exn + json" where
  "py_get d k dflt =
     (case d of
        JObj kvs \<Rightarrow> (case map_of kvs k of None \<Rightarrow> Inr dflt | Some v \<Rightarrow> Inr v)
      | _ \<Rightarrow> Inl (attribute_error d ''get''))"

text \<open>\<open>d[k]\<close> with a string key.\<close>

definition py_item :: "json \<Rightarrow> string \<Rightarrow> exn + json" where
  "py_item d k =
     (case d of
        JObj kvs \<Rightarrow>
          (case map_of kvs k of
             None \<Rightarrow> Inl (Exn ''KeyError'' (sq @ k @ sq))
           | Some v \<Rightarrow> Inr v)
      | JArr xs \<Rightarrow> Inl (Exn ''TypeError'' ''list indices must be integers or slices, not str'')
      | JStr s \<Rightarrow>
          Inl (Exn ''TypeError'' (''string indices must be integers, not '' @ sq @ ''str'' @ sq))
      | _ \<Rightarrow> Inl (Exn ''TypeError'' (sq @ type_name d @ sq @ '' object is not subscriptable'')))"

subsection \<open>Strings\<close>

text \<open>
  The code points of a string: a byte of the form \<open>10xxxxxx\<close> continues the code point
  of the byte before it.
\<close>

definition is_cont :: "char \<Rightarrow> bool" where
  "is_cont c = (digit7 c \<and> \<not> digit6 c)"

fun utf8_chars :: "string \<Rightarrow> string list" where
  "utf8_chars [] = []"
| "utf8_chars (c # cs) =
     (case cs of
        [] \<Rightarrow> [[c]]
      | d # ds \<Rightarrow>
          if is_cont d then (case utf8_chars cs of [] \<Rightarrow> [[c]] | g # gs \<Rightarrow> (c # g) # gs)
          else [c] # utf8_chars cs)"

text \<open>\<open>for x in v\<close>: the elements a loop visits, or the \<open>TypeError\<close> it raises.\<close>

definition py_iter :: "json \<Rightarrow> exn + json list" where
  "py_iter v =
     (case v of
        JArr xs \<Rightarrow> Inr xs
      | JStr s \<Rightarrow> Inr (map JStr (utf8_chars s))
      | JObj kvs \<Rightarrow> Inr (map (\<lambda>kv. JStr (fst kv)) kvs)
      | _ \<Rightarrow> Inl (Exn ''TypeError'' (sq @ type_name v @ sq @ '' object is not iterable'')))"

text \<open>
  \<open>str.lower()\<close> on a string of ASCII characters: the letters \<open>A\<close> to \<open>Z\<close> are mapped to
  \<open>a\<close> to \<open>z\<close>. (On other strings the result follows the Unicode case mappings and is a
  parameter of the environment, see \<open>py_lower\<close> below.)
\<close>

definition is_ascii :: "char \<Rightarrow> bool" where
  "is_ascii c = (\<not> digit7 c)"

definition lower_char :: "char \<Rightarrow> char" where
  "lower_char c =
     (case map_of (zip ''ABCDEFGHIJKLMNOPQRSTUVWXYZ'' ''abcdefghijklmnopqrstuvwxyz'') c of
        None \<Rightarrow> c
      | Some l \<Rightarrow> l)"

definition ascii_lower :: "string \<Rightarrow> string" where
  "ascii_lower s = map lower_char s"

text \<open>\<open>k in s\<close> on strings: \<open>k\<close> occurs in \<open>s\<close> as a contiguous substring.\<close>

definition py_in :: "string \<Rightarrow> string \<Rightarrow> bool" where
  "py_in k s = sublist k s"

text \<open>\<open>s.startswith(p)\<close> and \<open>s.endswith(p)\<close>.\<close>

definition startswith :: "string \<Rightarrow> string \<Rightarrow> bool" where
  "startswith s p = prefix p s"

definition endswith :: "string \<Rightarrow> string \<Rightarrow> bool" where
  "endswith s p = suffix p s"

text \<open>\<open>s.strip(chars)\<close>: drops the leading and trailing characters that satisfy \<open>P\<close>.\<close>

definition py_strip :: "(char \<Rightarrow> bool) \<Rightarrow> string \<Rightarrow> string" where
  "py_strip P s = rev (dropWhile P (rev (dropWhile P s)))"

text \<open>
  \<open>s.strip()\<close>: drops the leading and trailing whitespace code points. These are
  U+0009 to U+000D, U+001C to U+0020, U+0085, U+00A0, U+1680, U+2000 to U+200A, U+2028,
  U+2029, U+202F, U+205F and U+3000, listed here in UTF-8.
\<close>

definition whitespace :: "string list" where
  "whitespace =
     [[CHR 0x09], [CHR 0x0A], [CHR 0x0B], [CHR 0x0C], [CHR 0x0D],
      [CHR 0x1C], [CHR 0x1D], [CHR 0x1E], [CHR 0x1F], [CHR 0x20],
      [CHR 0xC2, CHR 0x85], [CHR 0xC2, CHR 0xA0],
      [CHR 0xE1, CHR 0x9A, CHR 0x80],
      [CHR 0xE2, CHR 0x80, CHR 0x80], [CHR 0xE2, CHR 0x80, CHR 0x81],
      [CHR 0xE2, CHR 0x80, CHR 0x82], [CHR 0xE2, CHR 0x80, CHR 0x83],
      [CHR 0xE2, CHR 0x80, CHR 0x84], [CHR 0xE2, CHR 0x80, CHR 0x85],
      [CHR 0xE2, CHR 0x80, CHR 0x86], [CHR 0xE2, CHR 0x80, CHR 0x87],
      [CHR 0xE2, CHR 0x80, CHR 0x88], [CHR 0xE2, CHR 0x80, CHR 0x89],
      [CHR 0xE2, CHR 0x80, CHR 0x8A],
      [CHR 0xE2, CHR 0x80, CHR 0xA8], [CHR 0xE2, CHR 0x80, CHR 0xA9],
      [CHR 0xE2, CHR 0x80, CHR 0xAF],
      [CHR 0xE2, CHR 0x81, CHR 0x9F],
      [CHR 0xE3, CHR 0x80, CHR 0x80]]"

definition is_space :: "string \<Rightarrow> bool" where
  "is_space g = (g \<in> set whitespace)"

definition str_strip :: "string \<Rightarrow> string" where
  "str_strip s = concat (rev (dropWhile is_space (rev (dropWhile is_space (utf8_chars s)))))"

fun nat_digits :: "nat \<Rightarrow> string" where
  "nat_digits n =
     (if n < 10 then [''0123456789'' ! n]
      else nat_digits (n div 10) @ [''0123456789'' ! (n mod 10)])"

declare nat_digits.simps [simp del]

definition int_str :: "int \<Rightarrow> string" where
  "int_str i = (if i < 0 then CHR ''-'' # nat_digits (nat (- i)) else nat_digits (nat i))"

text \<open>
  \<open>str(v)\<close>, as used by f-strings and by the flag parser. The text between the brackets
  of a list or dict is Python's \<open>repr\<close> of the elements and is left to the parameter
  \<open>inner\<close>.
\<close>

fun py_str :: "(json \<Rightarrow> string) \<Rightarrow> json \<Rightarrow> string" where
  "py_str inner JNull = ''None''"
| "py_str inner (JBool b) = (if b then ''True'' else ''False'')"
| "py_str inner (JInt i) = int_str i"
| "py_str inner (JStr s) = s"
| "py_str inner (JArr xs) = ''['' @ inner (JArr xs) @ '']''"
| "py_str inner (JObj kvs) = ''{'' @ inner (JObj kvs) @ ''}''"

section \<open>The vendor, the file system and the random source\<close>

text \<open>
  What \<open>requests\<close> hands back for one HTTP exchange: the status line, the final URL, the
  body text (\<open>resp.text\<close>) and what \<open>resp.json()\<close> yields (\<open>None\<close> when the body does
  not parse).
\<close>

record response =
  r_status :: nat
  r_reason :: string
  r_url :: string
  r_text :: string
  r_json :: "json option"

text \<open>The HTTP requests the bridge sends to the vendor, with the values it puts in them.\<close>

datatype call =
    Login
  | ChangeStatus (cs_token: json) (cs_ro: json) (cs_status: string) (cs_type: string)
  | SaveMedia (sm_token: json) (sm_blob_name: string) (sm_content: bytes)
  | SaveChecklist (sc_token: json) (sc_ro: json) (sc_labor: json) (sc_item: json)
      (sc_comments: json) (sc_condition: json) (sc_type: string)
  | SaveChecklistImageCloud (si_token: json) (si_ro: json) (si_labor: json) (si_item: json)
      (si_blob: string) (si_type: string)
  | GetRODetail (gd_token: json) (gd_ro: json)
  | GetCheckListItemsV2 (gi_token: json) (gi_labor: json)
  | SetROStatus (ss_token: json) (ss_ro: json) (ss_status: string)

text \<open>
  Everything outside the repository is a parameter: the vendor (its answer may depend on
  the requests it has already received; \<open>Inl\<close> is a transport failure raised by
  \<open>requests\<close>), the stream of \<open>uuid4().hex\<close> values, \<open>base64.b64decode\<close> on strings,
  whether the operating system lets a file be created at a path, what \<open>open\<close> does with
  a path that is not a string, \<open>repr\<close> inside containers, \<open>str.lower()\<close> on a string
  that is not pure ASCII, whether \<open>print\<close> raises when it is given a line (an encoding
  error for a character the standard output cannot encode, a closed pipe), and the file a
  path denotes once the operating system has resolved it (\<open>..\<close>, symbolic links): two
  paths name the same file when they resolve to the same key.
\<close>

record env =
  vendor :: "call list \<Rightarrow> call \<Rightarrow> exn + response"
  uuid_hex :: "nat \<Rightarrow> string"
  b64decode_str :: "string \<Rightarrow> exn + bytes"
  can_create :: "string \<Rightarrow> bool"
  open_other :: "json \<Rightarrow> exn + bytes"
  repr_inner :: "json \<Rightarrow> string"
  lower_non_ascii :: "string \<Rightarrow> string"
  print_raises :: "string \<Rightarrow> exn option"
  fs_resolve :: "string \<Rightarrow> string"

text \<open>
  The mutable world of one request: the vendor requests sent so far (oldest first), the
  regular files on disk with their contents (an association list keyed by the
  resolved path), and how many random identifiers were drawn.
\<close>

record world =
  w_calls :: "call list"
  w_files :: "(string \<times> bytes) list"
  w_uuids :: nat

type_synonym 'a io = "world \<Rightarrow> (exn + 'a) \<times> world"

definition fs_del :: "string \<Rightarrow> (string \<times> bytes) list \<Rightarrow> (string \<times> bytes) list" where
  "fs_del path fs = filter (\<lambda>kv. fst kv \<noteq> path) fs"

definition fs_put :: "string \<Rightarrow> bytes \<Rightarrow> (string \<times> bytes) list \<Rightarrow> (string \<times> bytes) list" where
  "fs_put path content fs = (path, content) # fs_del path fs"

text \<open>Sequencing: an exception skips the rest, the world is kept as it was left.\<close>

definition bindE :: "'a io \<Rightarrow> ('a \<Rightarrow> 'b io) \<Rightarrow> 'b io" where
  "bindE m f = (\<lambda>w. case m w of (Inl e, w') \<Rightarrow> (Inl e, w') | (Inr a, w') \<Rightarrow> f a w')"

definition ret :: "'a \<Rightarrow> 'a io" where
  "ret a = (\<lambda>w. (Inr a, w))"

definition raise :: "exn \<Rightarrow> 'a io" where
  "raise e = (\<lambda>w. (Inl e, w))"

definition lift :: "exn + 'a \<Rightarrow> 'a io" where
  "lift r = (\<lambda>w. (r, w))"

definition send :: "env \<Rightarrow> call \<Rightarrow> response io" where
  "send E c = (\<lambda>w. (vendor E (w_calls w) c, w\<lparr>w_calls := w_calls w @ [c]\<rparr>))"

definition uuid4_hex :: "env \<Rightarrow> string io" where
  "uuid4_hex E = (\<lambda>w. (Inr (uuid_hex E (w_uuids w)), w\<lparr>w_uuids := Suc (w_uuids w)\<rparr>))"

text \<open>\<open>log(msg)\<close>, that is \<open>print(msg, flush=True)\<close>.\<close>

definition log :: "env \<Rightarrow> string \<Rightarrow> unit io" where
  "log E msg = (\<lambda>w. case print_raises E msg of None \<Rightarrow> (Inr (), w) | Some e \<Rightarrow> (Inl e, w))"

subsection \<open>Text\<close>

text \<open>\<open>s.lower()\<close>.\<close>

definition py_lower :: "env \<Rightarrow> string \<Rightarrow> string" where
  "py_lower E s = (if list_all is_ascii s then ascii_lower s else lower_non_ascii E s)"

text \<open>\<open>(v or "").lower()\<close>: the idiom used on every free-text field of a vendor payload.\<close>

definition or_empty_lower :: "env \<Rightarrow> json \<Rightarrow> exn + string" where
  "or_empty_lower E v =
     (if truthy v then
        (case v of JStr s \<Rightarrow> Inr (py_lower E s) | _ \<Rightarrow> Inl (attribute_error v ''lower''))
      else Inr (py_lower E []))"

subsection \<open>Flag parsing in the two ISO-inspection endpoints\<close>

text \<open>
  \<open>dvi_server_final.py\<close>, lines 216-217:
  \<open>str(data.get("move_to_start", "true")).lower() == "true"\<close>.
\<close>

definition final_flag :: "env \<Rightarrow> json \<Rightarrow> string \<Rightarrow> exn + bool" where
  "final_flag E data k =
     (case py_get data k (JStr ''true'') of
        Inl e \<Rightarrow> Inl e
      | Inr v \<Rightarrow> Inr (py_lower E (py_str (repr_inner E) v) = ''true''))"

text \<open>
  \<open>dvi_bridge.py\<close>, \<open>_form_bool(val, default)\<close>: \<open>None\<close> gives the default, anything else
  is true when \<open>str(val).strip().lower()\<close> is one of five words.
\<close>

definition form_bool :: "env \<Rightarrow> json \<Rightarrow> bool \<Rightarrow> bool" where
  "form_bool E val dflt =
     (if val = JNull then dflt
      else py_lower E (str_strip (py_str (repr_inner E) val))
             \<in> set [''1'', ''true'', ''yes'', ''y'', ''on''])"

text \<open>
  \<open>dvi_bridge.py\<close>, lines 359-360, the multipart branch of its ISO-inspection endpoint:
  \<open>_form_bool(form.get("move_to_start"), True)\<close>, where \<open>form.get\<close> yields the first value
  of the field or \<open>None\<close>.
\<close>

definition bridge_form_flag :: "env \<Rightarrow> (string \<times> string) list \<Rightarrow> string \<Rightarrow> bool" where
  "bridge_form_flag E form k =
     form_bool E (case map_of form k of None \<Rightarrow> JNull | Some s \<Rightarrow> JStr s) True"

subsection \<open>\<open>requests\<close>: status checks\<close>

text \<open>\<open>Response.raise_for_status()\<close>: an \<open>HTTPError\<close> for 400-599, nothing otherwise.\<close>

definition raise_for_status :: "response \<Rightarrow> exn + unit" where
  "raise_for_status r =
     (if 400 \<le> r_status r \<and> r_status r < 500 then
        Inl (Exn ''HTTPError''
          (nat_digits (r_status r) @ '' Client Error: '' @ r_reason r @ '' for url: '' @ r_url r))
      else if 500 \<le> r_status r \<and> r_status r < 600 then
        Inl (Exn ''HTTPError''
          (nat_digits (r_status r) @ '' Server Error: '' @ r_reason r @ '' for url: '' @ r_url r))
      else Inr ())"

text \<open>\<open>Response.ok\<close>: true unless \<open>raise_for_status\<close> would raise.\<close>

definition resp_ok :: "response \<Rightarrow> bool" where
  "resp_ok r = (case raise_for_status r of Inl e \<Rightarrow> False | Inr u \<Rightarrow> True)"

text \<open>
  \<open>Response.json()\<close>; the message of the decoding error stands for whatever the decoder
  reports.
\<close>

definition resp_json :: "response \<Rightarrow> exn + json" where
  "resp_json r =
     (case r_json r of
        None \<Rightarrow> Inl (Exn ''JSONDecodeError'' ''Expecting value: line 1 column 1 (char 0)'')
      | Some v \<Rightarrow> Inr v)"

section \<open>Vendor wrappers\<close>

subsection \<open>\<open>dvi_auth.py\<close>\<close>

definition dvi_login :: "env \<Rightarrow> json io" where
  "dvi_login E =
     bindE (send E Login) (\<lambda>resp.
     bindE (lift (raise_for_status resp)) (\<lambda>u.
     bindE (lift (resp_json resp)) (\<lambda>data.
     lift (py_item data ''Token''))))"

subsection \<open>\<open>dvi_status.py\<close>\<close>

definition change_status :: "env \<Rightarrow> json \<Rightarrow> json \<Rightarrow> string \<Rightarrow> string \<Rightarrow> string io" where
  "change_status E token ro_number status ro_type =
     bindE (send E (ChangeStatus token ro_number status ro_type)) (\<lambda>resp.
     bindE (lift (raise_for_status resp)) (\<lambda>u.
     ret (r_text resp)))"

subsection \<open>\<open>dvi_media.py\<close>\<close>

text \<open>
  Paths as \<open>pathlib\<close> writes them: in \<open>str(Path(p))\<close> for a relative \<open>p\<close> the empty and
  \<open>.\<close> components drop out (\<open>..\<close> stays). \<open>path_name\<close> is \<open>Path(p).name\<close>, the last
  component. Which file a path denotes is decided by the operating system
  (\<open>fs_resolve\<close>).
\<close>

fun split_on :: "char \<Rightarrow> string \<Rightarrow> string list" where
  "split_on d [] = [[]]"
| "split_on d (c # cs) =
     (if c = d then [] # split_on d cs
      else (case split_on d cs of [] \<Rightarrow> [[c]] | p # ps \<Rightarrow> (c # p) # ps))"

definition path_parts :: "string \<Rightarrow> string list" where
  "path_parts p = filter (\<lambda>q. q \<noteq> [] \<and> q \<noteq> ''.'') (split_on CHR ''/'' p)"

fun join_path :: "string list \<Rightarrow> string" where
  "join_path [] = ''.''"
| "join_path [q] = q"
| "join_path (q # qs) = q @ ''/'' @ join_path qs"

definition norm_path :: "string \<Rightarrow> string" where
  "norm_path p =
     (if startswith p ''/'' then (if path_parts p = [] then ''/'' else ''/'' @ join_path (path_parts p))
      else join_path (path_parts p))"

definition path_name :: "string \<Rightarrow> string" where
  "path_name p = (case path_parts p of [] \<Rightarrow> [] | qs \<Rightarrow> last qs)"

text \<open>\<open>open(p, "rb")\<close> followed by reading the whole file.\<close>

definition read_file :: "env \<Rightarrow> json \<Rightarrow> bytes io" where
  "read_file E p =
     (\<lambda>w. case p of
        JStr s \<Rightarrow>
          (case map_of (w_files w) (fs_resolve E s) of
             None \<Rightarrow>
               (Inl (Exn ''FileNotFoundError''
                  (''[Errno 2] No such file or directory: '' @ sq @ s @ sq)), w)
           | Some content \<Rightarrow> (Inr content, w))
      | _ \<Rightarrow> (open_other E p, w))"

text \<open>
  \<open>save_media(token, image_path=None, image_bytes=None)\<close>. \<open>JNull\<close> stands for an
  omitted \<open>image_path\<close>, \<open>None\<close> for omitted \<open>image_bytes\<close>.
\<close>

definition save_media :: "env \<Rightarrow> json \<Rightarrow> json \<Rightarrow> bytes option \<Rightarrow> string io" where
  "save_media E token image_path image_bytes =
     (if \<not> truthy image_path \<and> (image_bytes = None \<or> image_bytes = Some []) then
        raise (Exn ''ValueError'' ''Must provide either image_path or image_bytes'')
      else
        bindE (uuid4_hex E) (\<lambda>u.
        let blob_name = u @ ''.jpg'' in
        bindE (if truthy image_path then read_file E image_path
               else ret (case image_bytes of None \<Rightarrow> [] | Some b \<Rightarrow> b)) (\<lambda>content.
        bindE (send E (SaveMedia token blob_name content)) (\<lambda>resp.
        bindE (lift (raise_for_status resp)) (\<lambda>u.
        bindE (lift (resp_json resp)) (\<lambda>v.
        (case v of
           JStr s \<Rightarrow> ret (py_strip (\<lambda>c. c = dq) s)
         | _ \<Rightarrow> raise (attribute_error v ''strip''))))))))"

subsection \<open>\<open>dvi_client.py\<close>\<close>

definition dvi_error :: "string \<Rightarrow> response \<Rightarrow> exn" where
  "dvi_error what r =
     Exn ''DVIError'' (what @ '' failed: '' @ nat_digits (r_status r) @ '' '' @ r_text r)"

text \<open>\<open>try: return resp.json() except Exception: return {"raw": resp.text}\<close>.\<close>

definition json_or_raw :: "response \<Rightarrow> json" where
  "json_or_raw r = (case r_json r of None \<Rightarrow> JObj [(''raw'', JStr (r_text r))] | Some v \<Rightarrow> v)"

definition get_ro_detail :: "env \<Rightarrow> json \<Rightarrow> json \<Rightarrow> json io" where
  "get_ro_detail E token ro_number =
     bindE (send E (GetRODetail token ro_number)) (\<lambda>resp.
     if \<not> resp_ok resp then raise (dvi_error ''GetRODetail'' resp)
     else lift (resp_json resp))"

definition get_checklist_items :: "env \<Rightarrow> json \<Rightarrow> json \<Rightarrow> json io" where
  "get_checklist_items E token labor_id =
     bindE (send E (GetCheckListItemsV2 token labor_id)) (\<lambda>resp.
     if \<not> resp_ok resp then raise (dvi_error ''GetCheckListItemsV2'' resp)
     else lift (resp_json resp))"

definition save_checklist ::
  "env \<Rightarrow> json \<Rightarrow> json \<Rightarrow> json \<Rightarrow> json \<Rightarrow> json \<Rightarrow> json \<Rightarrow> string \<Rightarrow> json io" where
  "save_checklist E token ro_number labor_id item_id condition comments ro_type =
     bindE (send E (SaveChecklist token ro_number labor_id item_id comments condition ro_type)) (\<lambda>resp.
     if \<not> resp_ok resp then raise (dvi_error ''SaveChecklist'' resp)
     else ret (json_or_raw resp))"

definition save_checklist_image_cloud ::
  "env \<Rightarrow> json \<Rightarrow> json \<Rightarrow> json \<Rightarrow> json \<Rightarrow> string \<Rightarrow> string \<Rightarrow> json io" where
  "save_checklist_image_cloud E token ro_number labor_id item_id blob_name ro_type =
     bindE (send E (SaveChecklistImageCloud token ro_number labor_id item_id blob_name ro_type)) (\<lambda>resp.
     if \<not> resp_ok resp then raise (dvi_error ''SaveChecklistImageCloud'' resp)
     else ret (json_or_raw resp))"

text \<open>
  \<open>set_ro_status(token, ro_number, status)\<close>: the client module's own status wrapper. It
  posts \<open>str(status)\<close> to \<open>/SetROStatus\<close>.
\<close>

definition set_ro_status :: "env \<Rightarrow> json \<Rightarrow> json \<Rightarrow> int \<Rightarrow> json io" where
  "set_ro_status E token ro_number status =
     bindE (send E (SetROStatus token ro_number (int_str status))) (\<lambda>resp.
     if \<not> resp_ok resp then raise (dvi_error ''SetROStatus'' resp)
     else ret (json_or_raw resp))"

subsection \<open>\<open>dvi_client.py\<close>: searching a repair order's detail\<close>

text \<open>
  \<open>find_labor_id_by_description(ro_detail, target)\<close>: the loop over \<open>LaborList\<close>. A labor
  whose description matches but whose \<open>ID\<close> is falsy is passed over.
\<close>

fun find_labor_loop :: "env \<Rightarrow> string \<Rightarrow> json list \<Rightarrow> exn + json option" where
  "find_labor_loop E target_lower [] = Inr None"
| "find_labor_loop E target_lower (labor # rest) =
     (case py_get labor ''Description'' JNull of
        Inl e \<Rightarrow> Inl e
      | Inr d \<Rightarrow>
          (case or_empty_lower E d of
             Inl e \<Rightarrow> Inl e
           | Inr desc \<Rightarrow>
               if py_in target_lower desc then
                 (case py_get labor ''ID'' JNull of
                    Inl e \<Rightarrow> Inl e
                  | Inr labor_id \<Rightarrow>
                      if truthy labor_id then Inr (Some labor_id)
                      else find_labor_loop E target_lower rest)
               else find_labor_loop E target_lower rest))"

definition find_labor_id_by_description :: "env \<Rightarrow> json \<Rightarrow> string \<Rightarrow> exn + json option" where
  "find_labor_id_by_description E ro_detail target =
     (case py_get ro_detail ''LaborList'' (JArr []) of
        Inl e \<Rightarrow> Inl e
      | Inr ll \<Rightarrow>
          (case py_iter ll of
             Inl e \<Rightarrow> Inl e
           | Inr labors \<Rightarrow> find_labor_loop E (py_lower E target) labors))"

text \<open>\<open>any(k in text for k in keywords)\<close>.\<close>

definition any_keyword :: "string list \<Rightarrow> string \<Rightarrow> bool" where
  "any_keyword keywords t = list_ex (\<lambda>k. py_in k t) keywords"

text \<open>The loop over \<open>LaborList\<close> of both detectors: true at the first matching description.\<close>

fun labor_scan :: "env \<Rightarrow> string list \<Rightarrow> json list \<Rightarrow> exn + bool" where
  "labor_scan E keywords [] = Inr False"
| "labor_scan E keywords (labor # rest) =
     (case py_get labor ''Description'' JNull of
        Inl e \<Rightarrow> Inl e
      | Inr d \<Rightarrow>
          (case or_empty_lower E d of
             Inl e \<Rightarrow> Inl e
           | Inr desc \<Rightarrow> if any_keyword keywords desc then Inr True else labor_scan E keywords rest))"

text \<open>The loop over \<open>CheckLists\<close>: it looks for one fixed phrase in each \<open>Name\<close>.\<close>

fun checklist_scan :: "env \<Rightarrow> string \<Rightarrow> json list \<Rightarrow> exn + bool" where
  "checklist_scan E phrase [] = Inr False"
| "checklist_scan E phrase (cl # rest) =
     (case py_get cl ''Name'' JNull of
        Inl e \<Rightarrow> Inl e
      | Inr n \<Rightarrow>
          (case or_empty_lower E n of
             Inl e \<Rightarrow> Inl e
           | Inr name \<Rightarrow> if py_in phrase name then Inr True else checklist_scan E phrase rest))"

text \<open>
  \<open>ro_has_oil_service\<close> and \<open>ro_has_wheel_work\<close> have the same body; they differ in the
  keyword list and in the checklist phrase. \<open>detect\<close> is that body.
\<close>

definition detect :: "env \<Rightarrow> string list \<Rightarrow> string \<Rightarrow> json \<Rightarrow> exn + bool" where
  "detect E keywords phrase ro_detail =
     (case py_get ro_detail ''Requests'' JNull of
        Inl e \<Rightarrow> Inl e
      | Inr r \<Rightarrow>
     (case or_empty_lower E r of
        Inl e \<Rightarrow> Inl e
      | Inr requests_text \<Rightarrow>
     if any_keyword keywords requests_text then Inr True
     else
     (case py_get ro_detail ''LaborList'' (JArr []) of
        Inl e \<Rightarrow> Inl e
      | Inr ll \<Rightarrow>
     (case py_iter ll of
        Inl e \<Rightarrow> Inl e
      | Inr labors \<Rightarrow>
     (case labor_scan E keywords labors of
        Inl e \<Rightarrow> Inl e
      | Inr True \<Rightarrow> Inr True
      | Inr False \<Rightarrow>
     (case py_get ro_detail ''CheckLists'' (JArr []) of
        Inl e \<Rightarrow> Inl e
      | Inr cls \<Rightarrow>
     (case py_iter cls of
        Inl e \<Rightarrow> Inl e
      | Inr checklists \<Rightarrow> checklist_scan E phrase checklists)))))))"

definition oil_keywords :: "string list" where
  "oil_keywords =
     [''oil change'', ''lube, oil'', ''oil capacity verified'', ''oil filter'',
      ''synthetic oil'', ''engine oil'']"

definition wheel_keywords :: "string list" where
  "wheel_keywords =
     [''tire'', ''mount and balance'', ''wheel balance'', ''alignment'', ''brake'', ''cv axle'',
      ''strut'', ''shock'', ''control arm'', ''ball joint'', ''wheel bearing'', ''rim'', ''lug'',
      ''hub'']"

definition ro_has_oil_service :: "env \<Rightarrow> json \<Rightarrow> exn + bool" where
  "ro_has_oil_service E ro_detail = detect E oil_keywords ''oil change signoff'' ro_detail"

definition ro_has_wheel_work :: "env \<Rightarrow> json \<Rightarrow> exn + bool" where
  "ro_has_wheel_work E ro_detail = detect E wheel_keywords ''wheel torque signoff'' ro_detail"

section \<open>\<open>dvi_server_final.py\<close>: identifier resolution\<close>

text \<open>\<open>config.py\<close>: the optional static overrides (\<open>JNull\<close> for \<open>None\<close>).\<close>

record config =
  cfg_iso_labor_id :: json
  cfg_iso_item_id :: json

definition shipped_config :: config where
  "shipped_config =
     \<lparr>cfg_iso_labor_id = JStr ''e96a6a31-2400-47d4-84bd-155fccdb933b'',
      cfg_iso_item_id = JStr ''7dfec4da-e129-4bff-860f-f3f1c440708b''\<rparr>"

text \<open>The \<open>for ... break\<close> loop: the first item whose lower-cased \<open>Title\<close> contains \<open>iso\<close>.\<close>

fun iso_item_loop :: "env \<Rightarrow> json list \<Rightarrow> exn + json option" where
  "iso_item_loop E [] = Inr None"
| "iso_item_loop E (item # rest) =
     (case py_get item ''Title'' JNull of
        Inl e \<Rightarrow> Inl e
      | Inr t \<Rightarrow>
          (case or_empty_lower E t of
             Inl e \<Rightarrow> Inl e
           | Inr title \<Rightarrow> if py_in ''iso'' title then Inr (Some item) else iso_item_loop E rest))"

text \<open>\<open>items[0]\<close>.\<close>

definition py_first :: "json \<Rightarrow> exn + json" where
  "py_first v =
     (case v of
        JArr xs \<Rightarrow>
          (case xs of [] \<Rightarrow> Inl (Exn ''IndexError'' ''list index out of range'') | x # rest \<Rightarrow> Inr x)
      | JStr s \<Rightarrow>
          (case utf8_chars s of
             [] \<Rightarrow> Inl (Exn ''IndexError'' ''string index out of range'')
           | g # rest \<Rightarrow> Inr (JStr g))
      | JObj kvs \<Rightarrow> Inl (Exn ''KeyError'' ''0'')
      | _ \<Rightarrow> Inl (Exn ''TypeError'' (sq @ type_name v @ sq @ '' object is not subscriptable'')))"

text \<open>
  \<open>resolve_iso_labor_and_item(token, ro_number)\<close>. The two identifiers are imported from
  \<open>config.py\<close>, so the \<open>NameError\<close> branch of the source is never taken; an identifier
  that is not configured is \<open>None\<close> (or empty).
\<close>

definition runtime_error :: "string \<Rightarrow> exn" where
  "runtime_error m = Exn ''RuntimeError'' m"

definition resolve_iso_labor_and_item :: "env \<Rightarrow> config \<Rightarrow> json \<Rightarrow> json \<Rightarrow> (json \<times> json) io" where
  "resolve_iso_labor_and_item E C token ro_number =
     (if truthy (cfg_iso_labor_id C) \<and> truthy (cfg_iso_item_id C) then
        ret (cfg_iso_labor_id C, cfg_iso_item_id C)
      else
        bindE (get_ro_detail E token ro_number) (\<lambda>ro_detail.
        bindE (lift (find_labor_id_by_description E ro_detail ''ISO'')) (\<lambda>found.
        (case found of
           None \<Rightarrow>
             raise (runtime_error
               (''Could not find ISO labor for RO '' @ py_str (repr_inner E) ro_number))
         | Some labor_id \<Rightarrow>
        bindE (get_checklist_items E token labor_id) (\<lambda>items_payload.
        bindE (lift (case items_payload of
                       JArr xs \<Rightarrow> Inr items_payload
                     | _ \<Rightarrow> py_get items_payload ''Items'' (JArr []))) (\<lambda>items.
        if \<not> truthy items then
          raise (runtime_error
            (''No checklist items returned for ISO labor '' @ py_str (repr_inner E) labor_id
               @ '' / RO '' @ py_str (repr_inner E) ro_number))
        else
        bindE (lift (py_iter items)) (\<lambda>its.
        bindE (lift (iso_item_loop E its)) (\<lambda>hit.
        bindE (lift (case hit of
                       None \<Rightarrow> py_first items
                     | Some it \<Rightarrow> if truthy it then Inr it else py_first items)) (\<lambda>iso_item.
        bindE (lift (py_get iso_item ''ID'' JNull)) (\<lambda>item_id.
        if \<not> truthy item_id then
          raise (runtime_error
            (''Could not determine ISO item ID for RO '' @ py_str (repr_inner E) ro_number))
        else ret (labor_id, item_id)))))))))))"

section \<open>\<open>dvi_server_final.py\<close>: the ISO-inspection endpoint\<close>

text \<open>
  An incoming request as Flask presents it: the content type, what
  \<open>get_json(force=True, silent=True)\<close> yields (\<open>None\<close> when the body is not JSON), the
  form fields (\<open>request.form.to_dict()\<close>) and the uploaded files
  (\<open>request.files.items()\<close>).
\<close>

record upload =
  up_filename :: string
  up_content :: bytes

record request =
  rq_content_type :: "string option"
  rq_json :: "json option"
  rq_form :: "(string \<times> string) list"
  rq_files :: "(string \<times> upload) list"

text \<open>
  What the view function does: it returns a JSON body with an HTTP status, or an
  exception leaves it and reaches Flask.
\<close>

datatype outcome = Respond nat json | Propagates exn

definition is_multipart :: "request \<Rightarrow> bool" where
  "is_multipart rq =
     (case rq_content_type rq of None \<Rightarrow> False | Some ct \<Rightarrow> ct \<noteq> [] \<and> py_in ''multipart/form-data'' ct)"

definition request_data :: "request \<Rightarrow> json" where
  "request_data rq =
     (if is_multipart rq then JObj (map (\<lambda>kv. (fst kv, JStr (snd kv))) (rq_form rq))
      else (case rq_json rq of None \<Rightarrow> JObj [] | Some v \<Rightarrow> if truthy v then v else JObj []))"

definition request_files :: "request \<Rightarrow> (string \<times> upload) list" where
  "request_files rq = (if is_multipart rq then rq_files rq else [])"

text \<open>\<open>open(path, "wb")\<close>: the file exists and is empty afterwards, or the call raises.\<close>

definition create_file :: "env \<Rightarrow> string \<Rightarrow> unit io" where
  "create_file E path =
     (\<lambda>w. if can_create E path
          then (Inr (), w\<lparr>w_files := fs_put (fs_resolve E path) [] (w_files w)\<rparr>)
          else (Inl (Exn ''OSError'' (''cannot open '' @ sq @ path @ sq)), w))"

text \<open>\<open>f.write(content)\<close> on the file opened at \<open>path\<close>.\<close>

definition write_file :: "env \<Rightarrow> string \<Rightarrow> bytes \<Rightarrow> unit io" where
  "write_file E path content =
     (\<lambda>w. (Inr (), w\<lparr>w_files := fs_put (fs_resolve E path) content (w_files w)\<rparr>))"

text \<open>\<open>try: body except Exception as e: handler(e)\<close>.\<close>

definition catch :: "'a io \<Rightarrow> (exn \<Rightarrow> 'a io) \<Rightarrow> 'a io" where
  "catch m h = (\<lambda>w. case m w of (Inl e, w') \<Rightarrow> h e w' | (Inr a, w') \<Rightarrow> (Inr a, w'))"

text \<open>
  Step 1 of the image collection: every uploaded file with a file name is saved as
  \<open>./tmp_<uuid>.jpg\<close>. The loop is not inside any \<open>try\<close>.
\<close>

fun stage_files :: "env \<Rightarrow> (string \<times> upload) list \<Rightarrow> json list io" where
  "stage_files E [] = ret []"
| "stage_files E (kf # rest) =
     (if up_filename (snd kf) = [] then stage_files E rest
      else
        bindE (uuid4_hex E) (\<lambda>u.
        let tmp_path = norm_path (''./tmp_'' @ u @ ''.jpg'') in
        bindE (create_file E tmp_path) (\<lambda>x.
        bindE (write_file E tmp_path (up_content (snd kf))) (\<lambda>y.
        bindE (stage_files E rest) (\<lambda>ps. ret (JStr tmp_path # ps))))))"

text \<open>\<open>base64.b64decode(v)\<close>: only strings are decoded.\<close>

definition b64decode :: "env \<Rightarrow> json \<Rightarrow> exn + bytes" where
  "b64decode E v =
     (case v of
        JStr s \<Rightarrow> b64decode_str E s
      | _ \<Rightarrow>
          Inl (Exn ''TypeError''
            (''argument should be a bytes-like object or ASCII string, not '' @ sq @ type_name v @ sq)))"

text \<open>
  The body of the \<open>try\<close> for one entry of \<open>images_base64\<close>; it yields the paths appended to
  \<open>image_paths\<close> (none or one). The default argument of \<open>img.get("filename", ...)\<close> draws
  a random identifier whether or not it is used.
\<close>

definition stage_b64_body :: "env \<Rightarrow> json \<Rightarrow> json list io" where
  "stage_b64_body E img =
     bindE (case img of
              JStr s \<Rightarrow> bindE (uuid4_hex E) (\<lambda>u. ret (img, JStr (''img_'' @ u @ ''.jpg'')))
            | JObj kvs \<Rightarrow>
                bindE (uuid4_hex E) (\<lambda>u.
                bindE (lift (py_get img ''filename'' (JStr (''img_'' @ u @ ''.jpg'')))) (\<lambda>filename.
                bindE (lift (py_get img ''data'' JNull)) (\<lambda>b64data.
                ret (b64data, filename))))
            | _ \<Rightarrow> raise (attribute_error img ''get'')) (\<lambda>df.
     if \<not> truthy (fst df) then ret []
     else
       bindE (uuid4_hex E) (\<lambda>u.
       let tmp_path = norm_path (''./tmp_'' @ u @ ''_'' @ py_str (repr_inner E) (snd df)) in
       bindE (create_file E tmp_path) (\<lambda>x.
       bindE (lift (b64decode E (fst df))) (\<lambda>raw.
       bindE (write_file E tmp_path raw) (\<lambda>y.
       ret [JStr tmp_path])))))"

text \<open>
  Step 3: each entry in its own \<open>try\<close>; an exception is logged (line 214) and the entry
  skipped. The loop is not inside the handler's outer \<open>try\<close>.
\<close>

fun stage_b64 :: "env \<Rightarrow> json list \<Rightarrow> json list io" where
  "stage_b64 E [] = ret []"
| "stage_b64 E (img # rest) =
     bindE (catch (stage_b64_body E img)
              (\<lambda>e. bindE (log E (''Base64 decode error: '' @ exn_msg e)) (\<lambda>u. ret []))) (\<lambda>ps.
     bindE (stage_b64 E rest) (\<lambda>qs. ret (ps @ qs)))"

text \<open>One pass of the upload loop's \<open>try\<close> body: upload, then attach.\<close>

definition upload_one :: "env \<Rightarrow> json \<Rightarrow> json \<Rightarrow> json \<Rightarrow> json \<Rightarrow> json \<Rightarrow> string io" where
  "upload_one E token ro_number labor_id item_id p =
     bindE (save_media E token p None) (\<lambda>blob.
     bindE (save_checklist_image_cloud E token ro_number labor_id item_id blob ''R'') (\<lambda>x.
     ret blob))"

definition upload_error_msg :: "env \<Rightarrow> json \<Rightarrow> exn \<Rightarrow> string" where
  "upload_error_msg E p e =
     ''Failed to upload/attach '' @ py_str (repr_inner E) p @ '': '' @ exn_msg e"

text \<open>
  The upload loop with its two accumulators \<open>blobs\<close> and \<open>upload_errors\<close>. The \<open>except\<close>
  clause builds the message, logs it (line 247) and appends it; an exception raised by
  the logging leaves the loop.
\<close>

fun upload_images ::
  "env \<Rightarrow> json \<Rightarrow> json \<Rightarrow> json \<Rightarrow> json \<Rightarrow> json list \<Rightarrow> string list \<times> string list
     \<Rightarrow> (string list \<times> string list) io" where
  "upload_images E token ro_number labor_id item_id [] acc = ret acc"
| "upload_images E token ro_number labor_id item_id (p # ps) acc =
     (\<lambda>w. case upload_one E token ro_number labor_id item_id p w of
        (Inr blob, w') \<Rightarrow>
          upload_images E token ro_number labor_id item_id ps (fst acc @ [blob], snd acc) w'
      | (Inl e, w') \<Rightarrow>
          bindE (log E (upload_error_msg E p e)) (\<lambda>u.
            upload_images E token ro_number labor_id item_id ps
              (fst acc, snd acc @ [upload_error_msg E p e])) w')"

text \<open>The line logged after the identifiers are resolved (line 231).\<close>

definition resolved_msg :: "env \<Rightarrow> json \<Rightarrow> json \<Rightarrow> json \<Rightarrow> string" where
  "resolved_msg E labor_id item_id ro_number =
     ''Resolved ISO labor_id='' @ py_str (repr_inner E) labor_id
       @ '', item_id='' @ py_str (repr_inner E) item_id
       @ '' for RO '' @ py_str (repr_inner E) ro_number"

text \<open>The two optional status moves; the result is the \<open>status_changes\<close> dict.\<close>

definition status_moves :: "env \<Rightarrow> json \<Rightarrow> json \<Rightarrow> bool \<Rightarrow> bool \<Rightarrow> (string \<times> json) list io" where
  "status_moves E token ro_number move_to_start move_to_complete =
     bindE (if move_to_start then
              bindE (change_status E token ro_number ''3'' ''R'') (\<lambda>r. ret [(''start'', JStr r)])
            else ret []) (\<lambda>sc.
     if move_to_complete then
       bindE (change_status E token ro_number ''4'' ''R'') (\<lambda>r. ret (sc @ [(''iso_complete'', JStr r)]))
     else ret sc)"

text \<open>
  \<open>data.get("condition", "") or ("Failed Inspection" if comments else "")\<close>, given the
  value \<open>c\<close> of \<open>data.get("condition", "")\<close>.
\<close>

definition pick_condition :: "json \<Rightarrow> json \<Rightarrow> json" where
  "pick_condition c comments =
     (if truthy c then c else if truthy comments then JStr ''Failed Inspection'' else JStr [])"

text \<open>The body of the handler's outer \<open>try\<close>, up to the success response.\<close>

definition iso_try ::
  "env \<Rightarrow> config \<Rightarrow> json \<Rightarrow> json \<Rightarrow> json \<Rightarrow> json \<Rightarrow> json list \<Rightarrow> bool \<Rightarrow> bool \<Rightarrow> json io" where
  "iso_try E C data ro_number title comments image_paths move_to_start move_to_complete =
     bindE (dvi_login E) (\<lambda>token.
     bindE (resolve_iso_labor_and_item E C token ro_number) (\<lambda>li.
     bindE (log E (resolved_msg E (fst li) (snd li) ro_number)) (\<lambda>u.
     bindE (upload_images E token ro_number (fst li) (snd li) image_paths ([], [])) (\<lambda>be.
     bindE (lift (py_get data ''condition'' (JStr []))) (\<lambda>c.
     bindE (save_checklist E token ro_number (fst li) (snd li) (pick_condition c comments)
              comments ''R'') (\<lambda>checklist_result.
     bindE (status_moves E token ro_number move_to_start move_to_complete) (\<lambda>status_changes.
     ret (JObj
       [(''ok'', JBool True),
        (''ro_number'', ro_number),
        (''title'', title),
        (''labor_id'', fst li),
        (''item_id'', snd li),
        (''blobs'', JArr (map JStr (fst be))),
        (''upload_errors'', JArr (map JStr (snd be))),
        (''checklist'', checklist_result),
        (''status_changes'', JObj status_changes)]))))))))"

text \<open>
  The \<open>finally\<close> block, for one entry of \<open>tmp_files_cleanup\<close>: a regular file whose name
  starts with \<open>tmp_\<close> is unlinked; anything else, and any exception, is passed over.
\<close>

definition cleanup_one :: "env \<Rightarrow> json \<Rightarrow> world \<Rightarrow> world" where
  "cleanup_one E p w =
     (case p of
        JStr s \<Rightarrow>
          if map_of (w_files w) (fs_resolve E s) \<noteq> None \<and> startswith (path_name s) ''tmp_''
          then w\<lparr>w_files := fs_del (fs_resolve E s) (w_files w)\<rparr>
          else w
      | _ \<Rightarrow> w)"

definition cleanup :: "env \<Rightarrow> json list \<Rightarrow> world \<Rightarrow> world" where
  "cleanup E ps w = fold (cleanup_one E) ps w"

definition error_body :: "string \<Rightarrow> json" where
  "error_body m = JObj [(''ok'', JBool False), (''error'', JStr m)]"

text \<open>
  What the handler has in hand when it enters its outer \<open>try\<close>.
\<close>

record iso_inputs =
  in_data :: json
  in_ro_number :: json
  in_title :: json
  in_comments :: json
  in_image_paths :: "json list"
  in_move_to_start :: bool
  in_move_to_complete :: bool

text \<open>
  The part of \<open>dvi_iso_inspection()\<close> before the outer \<open>try\<close>: request parsing, the check
  for \<open>ro_number\<close> (\<open>None\<close> is the early return with status 400), image staging, flag
  parsing and the log line of line 219. An exception raised here is not caught by the
  view function.
\<close>

definition iso_parse :: "env \<Rightarrow> request \<Rightarrow> iso_inputs option io" where
  "iso_parse E rq =
     (let data = request_data rq in
      bindE (lift (py_get data ''ro_number'' JNull)) (\<lambda>ro_number.
      if \<not> truthy ro_number then ret None
      else
        bindE (lift (py_get data ''title'' (JStr ''ISO Vehicle Inspection''))) (\<lambda>title.
        bindE (lift (py_get data ''comments'' (JStr []))) (\<lambda>comments.
        bindE (stage_files E (request_files rq)) (\<lambda>staged.
        bindE (lift (py_get data ''image_paths'' (JArr []))) (\<lambda>paths.
        bindE (lift (py_get data ''images_base64'' (JArr []))) (\<lambda>images_b64.
        bindE (stage_b64 E (case images_b64 of JArr imgs \<Rightarrow> imgs | _ \<Rightarrow> [])) (\<lambda>decoded.
        bindE (lift (final_flag E data ''move_to_start'')) (\<lambda>move_to_start.
        bindE (lift (final_flag E data ''move_to_complete'')) (\<lambda>move_to_complete.
        let image_paths = staged @ (case paths of JArr ps \<Rightarrow> ps | _ \<Rightarrow> []) @ decoded in
        bindE (log E (''/dvi/iso_inspection ro='' @ py_str (repr_inner E) ro_number
                        @ '', title='' @ py_str (repr_inner E) title
                        @ '', images='' @ nat_digits (length image_paths))) (\<lambda>u.
        ret (Some
          \<lparr>in_data = data, in_ro_number = ro_number, in_title = title, in_comments = comments,
           in_image_paths = image_paths,
           in_move_to_start = move_to_start,
           in_move_to_complete = move_to_complete\<rparr>))))))))))))"

text \<open>
  The outer \<open>try\<close> / \<open>except Exception\<close> / \<open>finally\<close> of the handler. The \<open>except\<close>
  clause logs the exception (line 283) before it builds the response; an exception raised
  by that logging leaves the view function once the \<open>finally\<close> block has run.
\<close>

definition iso_run :: "env \<Rightarrow> config \<Rightarrow> iso_inputs \<Rightarrow> world \<Rightarrow> outcome \<times> world" where
  "iso_run E C i w =
     (case iso_try E C (in_data i) (in_ro_number i) (in_title i) (in_comments i)
             (in_image_paths i) (in_move_to_start i) (in_move_to_complete i) w of
        (Inr body, w') \<Rightarrow> (Respond 200 body, cleanup E (in_image_paths i) w')
      | (Inl e, w') \<Rightarrow>
          (case log E (''/dvi/iso_inspection error: '' @ exn_msg e) w' of
             (Inr u, w'') \<Rightarrow>
               (Respond 500 (error_body (exn_msg e)), cleanup E (in_image_paths i) w'')
           | (Inl e', w'') \<Rightarrow> (Propagates e', cleanup E (in_image_paths i) w'')))"

definition dvi_iso_inspection :: "env \<Rightarrow> config \<Rightarrow> request \<Rightarrow> world \<Rightarrow> outcome \<times> world" where
  "dvi_iso_inspection E C rq w =
     (case iso_parse E rq w of
        (Inl e, w') \<Rightarrow> (Propagates e, w')
      | (Inr None, w') \<Rightarrow>
          (Respond 400 (error_body (''Missing required field '' @ sq @ ''ro_number'' @ sq)), w')
      | (Inr (Some i), w') \<Rightarrow> iso_run E C i w')"

section \<open>Well-formed vendor payloads\<close>

text \<open>
  The vendor's repair-order detail and checklist items are dicts whose text fields hold a
  string (or are absent, \<open>null\<close> or otherwise falsy) and whose list fields hold a list of
  dicts (or are absent). The functions below read such payloads; the predicates say when
  a payload has this shape.
\<close>

definition field :: "json \<Rightarrow> string \<Rightarrow> json" where
  "field d k = (case d of JObj kvs \<Rightarrow> (case map_of kvs k of None \<Rightarrow> JNull | Some v \<Rightarrow> v) | _ \<Rightarrow> JNull)"

definition field_text :: "json \<Rightarrow> string \<Rightarrow> string" where
  "field_text d k = (case field d k of JStr s \<Rightarrow> s | _ \<Rightarrow> [])"

definition entries :: "json \<Rightarrow> string \<Rightarrow> json list" where
  "entries d k = (case field d k of JArr xs \<Rightarrow> xs | _ \<Rightarrow> [])"

definition is_dict :: "json \<Rightarrow> bool" where
  "is_dict d = (case d of JObj kvs \<Rightarrow> True | _ \<Rightarrow> False)"

definition text_ok :: "json \<Rightarrow> string \<Rightarrow> bool" where
  "text_ok d k = (is_dict d \<and> (case field d k of JStr s \<Rightarrow> True | v \<Rightarrow> \<not> truthy v))"

definition list_ok :: "json \<Rightarrow> string \<Rightarrow> string \<Rightarrow> bool" where
  "list_ok d k sub =
     (case d of
        JObj kvs \<Rightarrow>
          (case map_of kvs k of
             None \<Rightarrow> True
           | Some v \<Rightarrow> (case v of JArr xs \<Rightarrow> list_all (\<lambda>x. text_ok x sub) xs | _ \<Rightarrow> False))
      | _ \<Rightarrow> False)"

definition wf_detail :: "json \<Rightarrow> bool" where
  "wf_detail d =
     (text_ok d ''Requests'' \<and> list_ok d ''LaborList'' ''Description''
        \<and> list_ok d ''CheckLists'' ''Name'')"


section \<open>What happens to each image\<close>

text \<open>
  The fate of one image, told from the two vendor operations: its upload (\<open>save_media\<close>)
  raised; or the upload returned a blob identifier and the attach
  (\<open>save_checklist_image_cloud\<close> for that blob) raised; or both returned.
\<close>

datatype image_result =
    Attached string
  | Upload_failed exn
  | Attach_failed string exn

definition image_step ::
  "env \<Rightarrow> json \<Rightarrow> json \<Rightarrow> json \<Rightarrow> json \<Rightarrow> json \<Rightarrow> world \<Rightarrow> image_result \<times> world" where
  "image_step E token ro_number labor_id item_id p w =
     (case save_media E token p None w of
        (Inl e, w1) \<Rightarrow> (Upload_failed e, w1)
      | (Inr blob, w1) \<Rightarrow>
          (case save_checklist_image_cloud E token ro_number labor_id item_id blob ''R'' w1 of
             (Inl e, w2) \<Rightarrow> (Attach_failed blob e, w2)
           | (Inr x, w2) \<Rightarrow> (Attached blob, w2)))"

text \<open>
  The fates of the images of a request, in input order, each image starting in the world
  its predecessor left; and the world the last one leaves.
\<close>

fun image_results ::
  "env \<Rightarrow> json \<Rightarrow> json \<Rightarrow> json \<Rightarrow> json \<Rightarrow> json list \<Rightarrow> world \<Rightarrow> (json \<times> image_result) list" where
  "image_results E token ro_number labor_id item_id [] w = []"
| "image_results E token ro_number labor_id item_id (p # ps) w =
     (p, fst (image_step E token ro_number labor_id item_id p w))
       # image_results E token ro_number labor_id item_id ps
           (snd (image_step E token ro_number labor_id item_id p w))"

fun after_images ::
  "env \<Rightarrow> json \<Rightarrow> json \<Rightarrow> json \<Rightarrow> json \<Rightarrow> json list \<Rightarrow> world \<Rightarrow> world" where
  "after_images E token ro_number labor_id item_id [] w = w"
| "after_images E token ro_number labor_id item_id (p # ps) w =
     after_images E token ro_number labor_id item_id ps
       (snd (image_step E token ro_number labor_id item_id p w))"

text \<open>
  The blob identifiers of the images that were uploaded and attached; those of the images
  that were uploaded, attached or not; and the images whose upload or attach raised, with
  the exception.
\<close>

fun attached_blobs :: "(json \<times> image_result) list \<Rightarrow> string list" where
  "attached_blobs [] = []"
| "attached_blobs ((p, Attached blob) # rest) = blob # attached_blobs rest"
| "attached_blobs ((p, Upload_failed e) # rest) = attached_blobs rest"
| "attached_blobs ((p, Attach_failed blob e) # rest) = attached_blobs rest"

fun uploaded_blobs :: "(json \<times> image_result) list \<Rightarrow> string list" where
  "uploaded_blobs [] = []"
| "uploaded_blobs ((p, Attached blob) # rest) = blob # uploaded_blobs rest"
| "uploaded_blobs ((p, Upload_failed e) # rest) = uploaded_blobs rest"
| "uploaded_blobs ((p, Attach_failed blob e) # rest) = blob # uploaded_blobs rest"

fun failures :: "(json \<times> image_result) list \<Rightarrow> (json \<times> exn) list" where
  "failures [] = []"
| "failures ((p, Attached blob) # rest) = failures rest"
| "failures ((p, Upload_failed e) # rest) = (p, e) # failures rest"
| "failures ((p, Attach_failed blob e) # rest) = (p, e) # failures rest"

section \<open>What the vendor is sent\<close>

text \<open>
  The value a request body supplies for a key, if any; the requests sent between two
  worlds; the status a request asks the repair order to be moved to; whether a
  computation returned.
\<close>

definition supplied :: "json \<Rightarrow> string \<Rightarrow> json option" where
  "supplied d k = (case d of JObj kvs \<Rightarrow> map_of kvs k | _ \<Rightarrow> None)"

definition sent_by :: "world \<Rightarrow> world \<Rightarrow> call list" where
  "sent_by w w' = drop (length (w_calls w)) (w_calls w')"

fun status_of :: "call \<Rightarrow> string option" where
  "status_of (ChangeStatus t r st ty) = Some st"
| "status_of c = None"

definition returns :: "(exn + 'a) \<times> world \<Rightarrow> bool" where
  "returns r = (case fst r of Inl e \<Rightarrow> False | Inr a \<Rightarrow> True)"

text \<open>
  \<open>sends P m\<close>: whatever the world, running \<open>m\<close> only appends requests to the log, and
  each of them satisfies \<open>P\<close>.
\<close>

definition sends :: "(call \<Rightarrow> bool) \<Rightarrow> 'a io \<Rightarrow> bool" where
  "sends P m = (\<forall>w. \<exists>cs. w_calls (snd (m w)) = w_calls w @ cs \<and> list_all P cs)"

section \<open>Concrete environments\<close>

definition ok_response :: "string \<Rightarrow> json option \<Rightarrow> response" where
  "ok_response body j =
     \<lparr>r_status = 200, r_reason = ''OK'', r_url = ''https://dviapi.rowriter.com/'',
      r_text = body, r_json = j\<rparr>"

definition server_error :: "string \<Rightarrow> string \<Rightarrow> response" where
  "server_error url body =
     \<lparr>r_status = 500, r_reason = ''Internal Server Error'', r_url = url, r_text = body,
      r_json = None\<rparr>"

text \<open>A vendor that accepts every request and stores a blob under the name it was sent.\<close>

definition accepting_vendor :: "call list \<Rightarrow> call \<Rightarrow> exn + response" where
  "accepting_vendor hist c =
     (case c of
        Login \<Rightarrow> Inr (ok_response ''{}'' (Some (JObj [(''Token'', JStr ''tok'')])))
      | SaveMedia t n content \<Rightarrow> Inr (ok_response n (Some (JStr n)))
      | _ \<Rightarrow> Inr (ok_response ''OK'' None))"

text \<open>
  \<open>str.lower()\<close> on a string whose only code point outside ASCII is the Kelvin sign
  U+212A: its lower case is the letter \<open>k\<close>.
\<close>

definition kelvin_lower :: "string \<Rightarrow> string" where
  "kelvin_lower s =
     concat (map (\<lambda>g. if g = [CHR 0xE2, CHR 0x84, CHR 0xAA] then ''k'' else map lower_char g)
               (utf8_chars s))"

text \<open>
  The remaining parameters: identifiers \<open>u0\<close>, \<open>u1\<close>, ...; a decoder that rejects a string
  whose length is not a multiple of four (\<open>Incorrect padding\<close>); a working directory
  without subdirectories, in which files can be created and a path denotes the file its
  \<open>pathlib\<close> form names; \<open>open\<close> rejects a path that is not a string; text whose only
  code point outside ASCII is the Kelvin sign; a standard output that takes every line.
\<close>

definition env_of :: "(call list \<Rightarrow> call \<Rightarrow> exn + response) \<Rightarrow> env" where
  "env_of v =
     \<lparr>vendor = v,
      uuid_hex = (\<lambda>n. ''u'' @ nat_digits n),
      b64decode_str =
        (\<lambda>s. if length s mod 4 = 0 then Inr s else Inl (Exn ''Error'' ''Incorrect padding'')),
      can_create = (\<lambda>p. CHR ''/'' \<notin> set p),
      open_other = (\<lambda>v. Inl (Exn ''TypeError'' ''expected str, bytes or os.PathLike object'')),
      repr_inner = (\<lambda>v. ''...''),
      lower_non_ascii = kelvin_lower,
      print_raises = (\<lambda>m. None),
      fs_resolve = norm_path\<rparr>"

definition w_init :: world where
  "w_init = \<lparr>w_calls = [], w_files = [], w_uuids = 0\<rparr>"

definition json_request :: "json \<Rightarrow> request" where
  "json_request j =
     \<lparr>rq_content_type = Some ''application/json'', rq_json = Some j, rq_form = [], rq_files = []\<rparr>"

text \<open>A vendor whose \<open>ChangeStatus\<close> answers 500 with a body.\<close>

definition refusing_vendor :: "call list \<Rightarrow> call \<Rightarrow> exn + response" where
  "refusing_vendor hist c =
     (case c of
        ChangeStatus t r st ty \<Rightarrow>
          Inr (server_error ''https://dviapi.rowriter.com/ChangeStatus'' ''RO is locked'')
      | _ \<Rightarrow> accepting_vendor hist c)"

text \<open>A vendor that accepts an upload but names the blob as it likes.\<close>

definition renaming_vendor :: "call list \<Rightarrow> call \<Rightarrow> exn + response" where
  "renaming_vendor hist c =
     (case c of
        SaveMedia t n content \<Rightarrow> Inr (ok_response ''blob123'' (Some (JStr ''blob123'')))
      | _ \<Rightarrow> accepting_vendor hist c)"





text \<open>A vendor that answers 500 to the upload of the content \<open>bad\<close>.\<close>

definition picky_vendor :: "call list \<Rightarrow> call \<Rightarrow> exn + response" where
  "picky_vendor hist c =
     (case c of
        SaveMedia t n content \<Rightarrow>
          if content = ''bad''
          then Inr (server_error ''https://api.rowriter.com/v2/BlobStorage/SaveMedia'' ''rejected'')
          else Inr (ok_response n (Some (JStr n)))
      | _ \<Rightarrow> accepting_vendor hist c)"

text \<open>A vendor that accepts every upload and answers 500 to every attach.\<close>

definition attach_refusing_vendor :: "call list \<Rightarrow> call \<Rightarrow> exn + response" where
  "attach_refusing_vendor hist c =
     (case c of
        SaveChecklistImageCloud t r l i b ty \<Rightarrow>
          Inr (server_error ''https://dviapi.rowriter.com/SaveChecklistImageCloud'' ''item is locked'')
      | _ \<Rightarrow> accepting_vendor hist c)"

text \<open>
  A vendor that answers 500 to the upload of the content \<open>bad\<close> and to the attach of the
  blob \<open>u1.jpg\<close>.
\<close>

definition fussy_vendor :: "call list \<Rightarrow> call \<Rightarrow> exn + response" where
  "fussy_vendor hist c =
     (case c of
        SaveChecklistImageCloud t r l i b ty \<Rightarrow>
          if b = ''u1.jpg''
          then Inr (server_error ''https://dviapi.rowriter.com/SaveChecklistImageCloud'' ''item is locked'')
          else accepting_vendor hist c
      | _ \<Rightarrow> picky_vendor hist c)"

definition three_images_world :: world where
  "three_images_world =
     \<lparr>w_calls = [],
      w_files = [(''a.jpg'', ''bad''), (''b.jpg'', ''fine''), (''c.jpg'', ''good'')],
      w_uuids = 0\<rparr>"

definition three_images_request :: request where
  "three_images_request =
     json_request
       (JObj [(''ro_number'', JStr ''12345''), (''comments'', JStr ''Brake pads worn''),
              (''image_paths'', JArr [JStr ''a.jpg'', JStr ''b.jpg'', JStr ''c.jpg''])])"

definition three_images_inputs :: iso_inputs where
  "three_images_inputs =
     \<lparr>in_data = JObj [(''ro_number'', JStr ''12345''), (''comments'', JStr ''Brake pads worn''),
                      (''image_paths'', JArr [JStr ''a.jpg'', JStr ''b.jpg'', JStr ''c.jpg''])],
      in_ro_number = JStr ''12345'',
      in_title = JStr ''ISO Vehicle Inspection'',
      in_comments = JStr ''Brake pads worn'',
      in_image_paths = [JStr ''a.jpg'', JStr ''b.jpg'', JStr ''c.jpg''],
      in_move_to_start = True,
      in_move_to_complete = True\<rparr>"

definition two_images_world :: world where
  "two_images_world =
     \<lparr>w_calls = [], w_files = [(''a.jpg'', ''good''), (''b.jpg'', ''bad'')], w_uuids = 0\<rparr>"

definition two_images_inputs :: iso_inputs where
  "two_images_inputs =
     \<lparr>in_data = JObj [(''ro_number'', JStr ''12345''), (''comments'', JStr ''Brake pads worn''),
                      (''image_paths'', JArr [JStr ''a.jpg'', JStr ''b.jpg''])],
      in_ro_number = JStr ''12345'',
      in_title = JStr ''ISO Vehicle Inspection'',
      in_comments = JStr ''Brake pads worn'',
      in_image_paths = [JStr ''a.jpg'', JStr ''b.jpg''],
      in_move_to_start = True,
      in_move_to_complete = True\<rparr>"

definition two_images_request :: request where
  "two_images_request =
     json_request
       (JObj [(''ro_number'', JStr ''12345''), (''comments'', JStr ''Brake pads worn''),
              (''image_paths'', JArr [JStr ''a.jpg'', JStr ''b.jpg''])])"

text \<open>The request of the spec's end-to-end scenario.\<close>

definition e2e_request :: request where
  "e2e_request =
     json_request
       (JObj [(''ro_number'', JStr ''12345''), (''comments'', JStr ''Brake pads worn''),
              (''image_paths'', JArr [])])"

section \<open>Theorems\<close>

subsection \<open>Sequencing and strings\<close>

lemma py_lower_Nil [simp]: "py_lower E [] = []"
  by (simp add: py_lower_def ascii_lower_def)

lemma bindE_simps [simp]:
  "bindE (ret a) f = f a"
  "bindE (raise e) f = raise e"
  "bindE (lift (Inr a)) f = f a"
  "bindE (lift (Inl e)) f = raise e"
  by (auto simp: bindE_def ret_def raise_def lift_def fun_eq_iff)

lemma dropWhile_hd_not: "dropWhile P xs = y # ys \<Longrightarrow> \<not> P y"
  by (metis hd_dropWhile list.sel(1) list.distinct(1))

lemma dropWhile_last: "dropWhile P xs \<noteq> [] \<Longrightarrow> last (dropWhile P xs) = last xs"
  by (induction xs) (auto split: if_splits)

lemma dropWhile_clean:
  "xs \<noteq> [] \<Longrightarrow> \<forall>x\<in>set xs. \<not> P x \<Longrightarrow> dropWhile P (xs @ ys) = xs @ ys"
  by (cases xs) auto

text \<open>After \<open>s.strip(c)\<close> the string neither starts nor ends with \<open>c\<close>.\<close>

lemma strip_no_prefix: "\<not> prefix [c] (py_strip (\<lambda>x. x = c) s)"
proof
  let ?P = "\<lambda>x. x = c"
  let ?xs = "dropWhile ?P s"
  let ?ys = "dropWhile ?P (rev ?xs)"
  assume "prefix [c] (py_strip ?P s)"
  then obtain zs where eq: "rev ?ys = c # zs"
    by (auto simp: py_strip_def prefix_def)
  then have ne: "?ys \<noteq> []" by auto
  from eq have "last ?ys = c"
    by (metis list.sel(1) hd_rev)
  with ne have "last (rev ?xs) = c" by (simp add: dropWhile_last)
  moreover from ne have xne: "?xs \<noteq> []" by (metis dropWhile.simps(1) rev.simps(1))
  ultimately have "hd ?xs = c" by (simp add: last_rev)
  moreover from xne have "\<not> ?P (hd ?xs)" by (rule hd_dropWhile)
  ultimately show False by simp
qed

lemma strip_no_suffix: "\<not> suffix [c] (py_strip (\<lambda>x. x = c) s)"
proof
  let ?P = "\<lambda>x. x = c"
  let ?ys = "dropWhile ?P (rev (dropWhile ?P s))"
  assume "suffix [c] (py_strip ?P s)"
  then obtain zs where eq: "rev ?ys = zs @ [c]"
    by (auto simp: py_strip_def suffix_def)
  then have "?ys = c # rev zs"
    by (metis rev_rev_ident rev_append rev_singleton_conv append_Cons append_Nil)
  then show False using dropWhile_hd_not by fastforce
qed

text \<open>Stripping keeps a suffix none of whose characters is stripped.\<close>

lemma strip_keeps_suffix:
  assumes "suffix t s" "t \<noteq> []" "\<forall>x\<in>set t. \<not> P x"
  shows "suffix t (py_strip P s)"
proof -
  from assms(1) obtain u where s: "s = u @ t" by (auto simp: suffix_def)
  have t: "dropWhile P t = t" using assms(2,3) by (cases t) auto
  have 1: "dropWhile P (u @ t) = dropWhile P u @ t"
    by (simp add: dropWhile_append t)
  have 2: "dropWhile P (rev t @ rev (dropWhile P u)) = rev t @ rev (dropWhile P u)"
    using assms(2,3) by (intro dropWhile_clean) auto
  show ?thesis
    by (simp add: py_strip_def s 1 2 suffix_def)
qed

subsection \<open>Status changes\<close>

lemma change_status_run:
  assumes "vendor E (w_calls w) (ChangeStatus token ro status ro_type) = Inr resp"
  shows "change_status E token ro status ro_type w =
           (if 400 \<le> r_status resp \<and> r_status resp < 600 then
              Inl (Exn ''HTTPError''
                (nat_digits (r_status resp)
                   @ (if r_status resp < 500 then '' Client Error: '' else '' Server Error: '')
                   @ r_reason resp @ '' for url: '' @ r_url resp))
            else Inr (r_text resp),
            w\<lparr>w_calls := w_calls w @ [ChangeStatus token ro status ro_type]\<rparr>)"
  using assms
  by (auto simp: change_status_def bindE_def send_def lift_def ret_def raise_for_status_def)

text \<open>
  C7, as stated, fails: on a non-success status the error raised by \<open>change_status\<close>
  carries the status code, the reason phrase and the URL, but not the response body.
  Here the vendor answers 500 with the body \<open>RO is locked\<close>.
\<close>

theorem change_status_error_omits_body:
  "fst (change_status (env_of refusing_vendor) (JStr ''tok'') (JStr ''12345'') ''3'' ''R'' w_init) =
     Inl (Exn ''HTTPError''
       ''500 Server Error: Internal Server Error for url: https://dviapi.rowriter.com/ChangeStatus'')
   \<and> \<not> py_in ''RO is locked''
        ''500 Server Error: Internal Server Error for url: https://dviapi.rowriter.com/ChangeStatus''"
  by code_simp

text \<open>
  C7, amended. For every status code, token and RO number, when the vendor answers with
  a status outside 400-599 \<open>change_status\<close> returns the response body text unchanged;
  when it answers with a status in 400-599 \<open>change_status\<close> raises an \<open>HTTPError\<close> whose
  message starts with the status code and carries the reason phrase and the URL. Either
  way exactly one \<open>ChangeStatus\<close> request is sent.
\<close>

theorem change_status_result:
  assumes "vendor E (w_calls w) (ChangeStatus token ro status ro_type) = Inr resp"
  shows "change_status E token ro status ro_type w =
           (if 400 \<le> r_status resp \<and> r_status resp < 600 then
              Inl (Exn ''HTTPError''
                (nat_digits (r_status resp)
                   @ (if r_status resp < 500 then '' Client Error: '' else '' Server Error: '')
                   @ r_reason resp @ '' for url: '' @ r_url resp))
            else Inr (r_text resp),
            w\<lparr>w_calls := w_calls w @ [ChangeStatus token ro status ro_type]\<rparr>)
         \<and> py_in (nat_digits (r_status resp))
             (nat_digits (r_status resp)
                @ (if r_status resp < 500 then '' Client Error: '' else '' Server Error: '')
                @ r_reason resp @ '' for url: '' @ r_url resp)"
  using change_status_run[OF assms] by (simp add: py_in_def)

text \<open>
  An accepting vendor (status 200, body \<open>OK\<close>) and a refusing one (status 500), for
  status code 8.
\<close>

theorem change_status_result_witness:
  "fst (change_status (env_of accepting_vendor) (JStr ''tok'') (JStr ''12345'') ''8'' ''R'' w_init)
     = Inr ''OK''
   \<and> fst (change_status (env_of refusing_vendor) (JStr ''tok'') (JStr ''12345'') ''8'' ''R'' w_init)
     = Inl (Exn ''HTTPError''
         ''500 Server Error: Internal Server Error for url: https://dviapi.rowriter.com/ChangeStatus'')"
proof -
  have a: "vendor (env_of accepting_vendor) (w_calls w_init)
             (ChangeStatus (JStr ''tok'') (JStr ''12345'') ''8'' ''R'') = Inr (ok_response ''OK'' None)"
    by (simp add: env_of_def accepting_vendor_def)
  have b: "vendor (env_of refusing_vendor) (w_calls w_init)
             (ChangeStatus (JStr ''tok'') (JStr ''12345'') ''8'' ''R'')
           = Inr (server_error ''https://dviapi.rowriter.com/ChangeStatus'' ''RO is locked'')"
    by (simp add: env_of_def refusing_vendor_def)
  have d: "nat_digits 500 = ''500''" by (simp add: nat_digits.simps)
  show ?thesis
    using change_status_result[OF a] change_status_result[OF b]
    by (simp add: ok_response_def server_error_def d)
qed

text \<open>
  The client module's \<open>set_ro_status\<close> is the wrapper whose error message holds both the
  status code and the body; it returns the parsed body, not the raw text.
\<close>

lemma set_ro_status_run:
  assumes "vendor E (w_calls w) (SetROStatus token ro (int_str status)) = Inr resp"
  shows "fst (set_ro_status E token ro status w) =
           (if 400 \<le> r_status resp \<and> r_status resp < 600 then
              Inl (Exn ''DVIError''
                (''SetROStatus failed: '' @ nat_digits (r_status resp) @ '' '' @ r_text resp))
            else Inr (json_or_raw resp))"
  using assms
  by (auto simp: set_ro_status_def bindE_def send_def ret_def raise_def resp_ok_def
      raise_for_status_def dvi_error_def)

subsection \<open>Media upload\<close>

text \<open>
  C8, as stated, fails: the identifier \<open>save_media\<close> returns is whatever string the vendor
  answered with, and a vendor that accepts the upload may answer with a name that does
  not end in \<open>.jpg\<close>.
\<close>

theorem save_media_suffix_not_guaranteed:
  "fst (save_media (env_of renaming_vendor) (JStr ''tok'') JNull (Some ''JFIF'') w_init)
     = Inr ''blob123''
   \<and> \<not> endswith ''blob123'' ''.jpg''"
  by code_simp

text \<open>
  C8, amended. For every upload from non-empty raw bytes that the vendor accepts with a
  JSON string, \<open>save_media\<close> sends the bytes under a generated name \<open><uuid>.jpg\<close> and
  returns the vendor's string with the surrounding double-quote characters stripped:
  the identifier neither starts nor ends with a quote, and it ends with \<open>.jpg\<close> whenever
  the vendor's string does (as when the vendor answers with the name it was sent).
\<close>

theorem save_media_strips_quotes:
  assumes bytes: "\<not> truthy image_path" "b \<noteq> []"
    and sent: "vendor E (w_calls w) (SaveMedia token (uuid_hex E (w_uuids w) @ ''.jpg'') b) = Inr resp"
    and accepted: "\<not> (400 \<le> r_status resp \<and> r_status resp < 600)"
    and body: "r_json resp = Some (JStr s)"
  shows "save_media E token image_path (Some b) w =
           (Inr (py_strip (\<lambda>c. c = dq) s),
            w\<lparr>w_uuids := Suc (w_uuids w),
              w_calls := w_calls w @ [SaveMedia token (uuid_hex E (w_uuids w) @ ''.jpg'') b]\<rparr>)
         \<and> \<not> startswith (py_strip (\<lambda>c. c = dq) s) [dq]
         \<and> \<not> endswith (py_strip (\<lambda>c. c = dq) s) [dq]
         \<and> (endswith s ''.jpg'' \<longrightarrow> endswith (py_strip (\<lambda>c. c = dq) s) ''.jpg'')"
proof -
  have run: "save_media E token image_path (Some b) w =
           (Inr (py_strip (\<lambda>c. c = dq) s),
            w\<lparr>w_uuids := Suc (w_uuids w),
              w_calls := w_calls w @ [SaveMedia token (uuid_hex E (w_uuids w) @ ''.jpg'') b]\<rparr>)"
    using assms
    by (auto simp: save_media_def bindE_def uuid4_hex_def ret_def send_def lift_def
      raise_for_status_def resp_json_def raise_def Let_def)
  have jpg: "endswith (py_strip (\<lambda>c. c = dq) s) ''.jpg''" if "endswith s ''.jpg''"
    using that unfolding endswith_def by (intro strip_keeps_suffix) (auto simp: dq_def)
  show ?thesis
    using run jpg by (simp add: startswith_def endswith_def strip_no_prefix strip_no_suffix)
qed

text \<open>A vendor that answers with the name it was sent.\<close>

theorem save_media_strips_quotes_witness:
  "fst (save_media (env_of accepting_vendor) (JStr ''tok'') JNull (Some ''JFIF'') w_init)
     = Inr ''u0.jpg''
   \<and> endswith ''u0.jpg'' ''.jpg''"
proof -
  have u: "uuid_hex (env_of accepting_vendor) (w_uuids w_init) = ''u0''"
    by (simp add: env_of_def w_init_def nat_digits.simps)
  have sent: "vendor (env_of accepting_vendor) (w_calls w_init)
                (SaveMedia (JStr ''tok'') (uuid_hex (env_of accepting_vendor) (w_uuids w_init) @ ''.jpg'') ''JFIF'')
              = Inr (ok_response ''u0.jpg'' (Some (JStr ''u0.jpg'')))"
    unfolding u by (simp add: env_of_def accepting_vendor_def)
  have strip: "py_strip (\<lambda>c. c = dq) ''u0.jpg'' = ''u0.jpg''"
    by (simp add: py_strip_def dq_def)
  have e: "endswith ''u0.jpg'' ''.jpg''" by code_simp
  have "\<not> truthy JNull" "''JFIF'' \<noteq> []" by simp_all
  from save_media_strips_quotes[OF this sent, of "''u0.jpg''"] show ?thesis
    by (simp add: ok_response_def strip e)
qed

subsection \<open>Reading well-formed payloads\<close>

lemma or_empty_lower_ok:
  "text_ok d k \<Longrightarrow> or_empty_lower E (field d k) = Inr (py_lower E (field_text d k))"
  by (auto simp: text_ok_def or_empty_lower_def field_text_def split: json.splits)

lemma py_get_field: "is_dict d \<Longrightarrow> py_get d k JNull = Inr (field d k)"
  by (auto simp: is_dict_def py_get_def field_def split: json.splits option.splits)

lemma list_ok_iter:
  assumes "list_ok d k sub"
  shows "\<exists>v. py_get d k (JArr []) = Inr v \<and> py_iter v = Inr (entries d k)
     \<and> list_all (\<lambda>x. text_ok x sub) (entries d k)"
  using assms
  by (auto simp: list_ok_def py_get_def py_iter_def entries_def field_def
      split: json.splits option.splits)

subsection \<open>Service detectors\<close>

lemma labor_scan_ok:
  "list_all (\<lambda>x. text_ok x ''Description'') ls \<Longrightarrow>
   labor_scan E kws ls =
     Inr (\<exists>l\<in>set ls. \<exists>k\<in>set kws. py_in k (py_lower E (field_text l ''Description'')))"
  by (induction ls)
    (auto simp: py_get_field or_empty_lower_ok any_keyword_def list_ex_iff text_ok_def)

lemma checklist_scan_ok:
  "list_all (\<lambda>x. text_ok x ''Name'') cs \<Longrightarrow>
   checklist_scan E phrase cs =
     Inr (\<exists>c\<in>set cs. py_in phrase (py_lower E (field_text c ''Name'')))"
  by (induction cs) (auto simp: py_get_field or_empty_lower_ok text_ok_def)

lemma detect_ok:
  assumes "wf_detail d"
  shows "detect E kws phrase d =
     Inr ((\<exists>k\<in>set kws. py_in k (py_lower E (field_text d ''Requests'')))
        \<or> (\<exists>l\<in>set (entries d ''LaborList'').
              \<exists>k\<in>set kws. py_in k (py_lower E (field_text l ''Description'')))
        \<or> (\<exists>c\<in>set (entries d ''CheckLists'').
              py_in phrase (py_lower E (field_text c ''Name''))))"
proof -
  from assms have r: "text_ok d ''Requests''" and l: "list_ok d ''LaborList'' ''Description''"
    and c: "list_ok d ''CheckLists'' ''Name''" by (auto simp: wf_detail_def)
  from r have dict: "is_dict d" by (simp add: text_ok_def)
  from list_ok_iter[OF l] obtain lv where lv: "py_get d ''LaborList'' (JArr []) = Inr lv"
    "py_iter lv = Inr (entries d ''LaborList'')"
    "list_all (\<lambda>x. text_ok x ''Description'') (entries d ''LaborList'')" by blast
  from list_ok_iter[OF c] obtain cv where cv: "py_get d ''CheckLists'' (JArr []) = Inr cv"
    "py_iter cv = Inr (entries d ''CheckLists'')"
    "list_all (\<lambda>x. text_ok x ''Name'') (entries d ''CheckLists'')" by blast
  show ?thesis
    unfolding detect_def
    by (auto simp: py_get_field[OF dict] or_empty_lower_ok[OF r] lv cv labor_scan_ok
        checklist_scan_ok any_keyword_def list_ex_iff split: bool.splits)
qed

text \<open>
  C4, as stated, fails in both directions. A checklist named \<open>Brake Check\<close> holds the
  wheel-work keyword \<open>brake\<close>, yet the wheel-work detector answers false: checklist names
  are not searched for the keywords. A checklist named \<open>Wheel Torque Signoff\<close> holds no
  wheel-work keyword, yet the detector answers true: checklist names are searched for the
  sign-off phrase.
\<close>

theorem detector_checklist_counterexample:
  "ro_has_wheel_work (env_of accepting_vendor)
       (JObj [(''CheckLists'', JArr [JObj [(''Name'', JStr ''Brake Check'')]])])
     = Inr False
   \<and> ''brake'' \<in> set wheel_keywords
   \<and> py_in ''brake'' (py_lower (env_of accepting_vendor) ''Brake Check'')
   \<and> ro_has_wheel_work (env_of accepting_vendor)
       (JObj [(''CheckLists'', JArr [JObj [(''Name'', JStr ''Wheel Torque Signoff'')]])])
     = Inr True
   \<and> \<not> list_ex (\<lambda>k. py_in k (py_lower (env_of accepting_vendor) ''Wheel Torque Signoff''))
         wheel_keywords"
  by code_simp

text \<open>
  C4, amended. Let the RO detail be a dict whose \<open>Requests\<close> is a string or falsy and whose
  \<open>LaborList\<close> and \<open>CheckLists\<close>, where present, are lists of dicts whose \<open>Description\<close>
  (respectively \<open>Name\<close>) is a string or falsy. The oil-service detector (respectively the
  wheel-work detector) returns true if and only if a keyword of its list occurs in the
  lower-cased Requests text or in the lower-cased Description of some LaborList entry, or
  the phrase \<open>oil change signoff\<close> (respectively \<open>wheel torque signoff\<close>) occurs in the
  lower-cased Name of some CheckLists entry; otherwise it returns false. Lower-casing is
  Python's \<open>str.lower()\<close>; an absent or falsy text counts as empty.
\<close>

theorem detectors_scan_requests_labors_and_signoff:
  assumes "wf_detail d"
  shows "ro_has_oil_service E d =
     Inr ((\<exists>k\<in>set oil_keywords. py_in k (py_lower E (field_text d ''Requests'')))
        \<or> (\<exists>l\<in>set (entries d ''LaborList'').
              \<exists>k\<in>set oil_keywords. py_in k (py_lower E (field_text l ''Description'')))
        \<or> (\<exists>c\<in>set (entries d ''CheckLists'').
              py_in ''oil change signoff'' (py_lower E (field_text c ''Name''))))
   \<and> ro_has_wheel_work E d =
     Inr ((\<exists>k\<in>set wheel_keywords. py_in k (py_lower E (field_text d ''Requests'')))
        \<or> (\<exists>l\<in>set (entries d ''LaborList'').
              \<exists>k\<in>set wheel_keywords. py_in k (py_lower E (field_text l ''Description'')))
        \<or> (\<exists>c\<in>set (entries d ''CheckLists'').
              py_in ''wheel torque signoff'' (py_lower E (field_text c ''Name''))))"
  using detect_ok[OF assms] by (simp add: ro_has_oil_service_def ro_has_wheel_work_def)

text \<open>
  A detail whose Requests text mentions an oil filter and nothing about wheels; and a
  detail whose Requests text is \<open>BRA\<close>, the Kelvin sign U+212A, \<open>E PADS\<close>: lower-cased it
  reads \<open>brake pads\<close>, so the wheel-work detector answers true.
\<close>

theorem detectors_scan_requests_labors_and_signoff_witness:
  "wf_detail (JObj [(''Requests'', JStr ''Oil Filter replacement'')])
   \<and> ro_has_oil_service (env_of accepting_vendor)
       (JObj [(''Requests'', JStr ''Oil Filter replacement'')]) = Inr True
   \<and> ro_has_wheel_work (env_of accepting_vendor)
       (JObj [(''Requests'', JStr ''Oil Filter replacement'')]) = Inr False
   \<and> wf_detail (JObj [(''Requests'', JStr (''BRA'' @ [CHR 0xE2, CHR 0x84, CHR 0xAA] @ ''E PADS''))])
   \<and> ro_has_wheel_work (env_of accepting_vendor)
       (JObj [(''Requests'', JStr (''BRA'' @ [CHR 0xE2, CHR 0x84, CHR 0xAA] @ ''E PADS''))])
     = Inr True"
proof -
  let ?E = "env_of accepting_vendor"
  let ?d = "JObj [(''Requests'', JStr ''Oil Filter replacement'')]"
  let ?k = "JObj [(''Requests'', JStr (''BRA'' @ [CHR 0xE2, CHR 0x84, CHR 0xAA] @ ''E PADS''))]"
  have wf: "wf_detail ?d" by code_simp
  have wfk: "wf_detail ?k" by code_simp
  have oil: "(\<exists>k\<in>set oil_keywords. py_in k (py_lower ?E (field_text ?d ''Requests''))) = True"
    by code_simp
  have wheel: "(\<exists>k\<in>set wheel_keywords. py_in k (py_lower ?E (field_text ?d ''Requests''))) = False"
    by code_simp
  have kelvin: "(\<exists>k\<in>set wheel_keywords. py_in k (py_lower ?E (field_text ?k ''Requests''))) = True"
    by code_simp
  have none: "entries ?d ''LaborList'' = []" "entries ?d ''CheckLists'' = []"
    by (simp_all add: entries_def field_def)
  note t = detectors_scan_requests_labors_and_signoff[OF wf, of ?E]
  note tk = detectors_scan_requests_labors_and_signoff[OF wfk, of ?E, THEN conjunct2]
  have a: "ro_has_oil_service ?E ?d = Inr True" "ro_has_wheel_work ?E ?d = Inr False"
    using t by (simp_all add: oil wheel none)
  have b: "ro_has_wheel_work ?E ?k = Inr True"
    unfolding tk using kelvin by simp
  show ?thesis using wf wfk a b by simp
qed

subsection \<open>Identifier resolution\<close>

lemma py_lower_ISO [simp]: "py_lower E ''ISO'' = ''iso''"
  by (simp add: py_lower_def is_ascii_def ascii_lower_def lower_char_def)












subsection \<open>The upload loop\<close>

lemma upload_one_step:
  "upload_one E t r l i p w =
     (case image_step E t r l i p w of
        (Attached blob, w') \<Rightarrow> (Inr blob, w')
      | (Upload_failed e, w') \<Rightarrow> (Inl e, w')
      | (Attach_failed blob e, w') \<Rightarrow> (Inl e, w'))"
  by (auto simp: upload_one_def image_step_def bindE_def ret_def split: prod.splits sum.splits)

lemma log_ok: "print_raises E m = None \<Longrightarrow> log E m w = (Inr (), w)"
  by (simp add: log_def)

lemma upload_images_results:
  assumes "\<forall>pe\<in>set (failures (image_results E t r l i ps w)).
             print_raises E (upload_error_msg E (fst pe) (snd pe)) = None"
  shows "upload_images E t r l i ps acc w =
     (Inr (fst acc @ attached_blobs (image_results E t r l i ps w),
           snd acc @ map (\<lambda>pe. upload_error_msg E (fst pe) (snd pe))
                       (failures (image_results E t r l i ps w))),
      after_images E t r l i ps w)"
  using assms
proof (induction ps arbitrary: acc w)
  case Nil
  then show ?case by (simp add: ret_def)
next
  case (Cons p ps)
  obtain res w' where step: "image_step E t r l i p w = (res, w')"
    by (cases "image_step E t r l i p w")
  have rest: "\<forall>pe\<in>set (failures (image_results E t r l i ps w')).
             print_raises E (upload_error_msg E (fst pe) (snd pe)) = None"
    using Cons.prems step by (cases res) simp_all
  show ?case
  proof (cases res)
    case (Attached blob)
    then show ?thesis
      using step by (simp add: upload_one_step Cons.IH[OF rest])
  next
    case (Upload_failed e)
    with Cons.prems step have "print_raises E (upload_error_msg E p e) = None" by simp
    then show ?thesis
      using step Upload_failed by (simp add: upload_one_step bindE_def log_ok Cons.IH[OF rest])
  next
    case (Attach_failed blob e)
    with Cons.prems step have "print_raises E (upload_error_msg E p e) = None" by simp
    then show ?thesis
      using step Attach_failed by (simp add: upload_one_step bindE_def log_ok Cons.IH[OF rest])
  qed
qed

text \<open>
  When the line logged for a failed image cannot be written, the exception of the
  logging leaves the upload loop: the remaining images are not processed.
\<close>

lemma log_failure_aborts_upload_loop:
  assumes "failures [(p, fst (image_step E t r l i p w))] = [(p, e)]"
    and "print_raises E (upload_error_msg E p e) = Some e'"
  shows "upload_images E t r l i (p # ps) acc w = (Inl e', snd (image_step E t r l i p w))"
proof -
  obtain res w' where step: "image_step E t r l i p w = (res, w')"
    by (cases "image_step E t r l i p w")
  show ?thesis
    using assms step by (cases res) (simp_all add: upload_one_step bindE_def log_def)
qed

lemma results_paths: "map fst (image_results E t r l i ps w) = ps"
  by (induction ps arbitrary: w) simp_all

lemma results_count: "length (attached_blobs outs) + length (failures outs) = length outs"
  by (induction outs rule: attached_blobs.induct) simp_all

lemma error_msg_mentions:
  "py_in (py_str (repr_inner E) p) (upload_error_msg E p e)"
  "py_in (exn_msg e) (upload_error_msg E p e)"
  unfolding py_in_def upload_error_msg_def sublist_def
  by (metis append.assoc, metis append.assoc append_Nil2)

subsection \<open>The ISO-inspection endpoint\<close>

lemma py_get_JObj:
  "py_get (JObj kvs) k d = Inr (case map_of kvs k of None \<Rightarrow> d | Some v \<Rightarrow> v)"
  by (simp add: py_get_def split: option.splits)

lemma final_flag_JObj:
  "final_flag E (JObj kvs) k =
     Inr (case map_of kvs k of None \<Rightarrow> True | Some v \<Rightarrow> py_lower E (py_str (repr_inner E) v) = ''true'')"
  by (simp add: final_flag_def py_get_JObj py_lower_def is_ascii_def ascii_lower_def
      lower_char_def split: option.splits)

text \<open>What a parsed request holds: the body is a dict, and the two flags were read from it.\<close>

lemma iso_parse_data:
  assumes "iso_parse E rq w0 = (Inr (Some i), w)"
  shows "in_data i = request_data rq"
    and "is_dict (in_data i)"
    and "in_move_to_start i =
           (case supplied (request_data rq) ''move_to_start'' of
              None \<Rightarrow> True
            | Some v \<Rightarrow> py_lower E (py_str (repr_inner E) v) = ''true'')"
    and "in_move_to_complete i =
           (case supplied (request_data rq) ''move_to_complete'' of
              None \<Rightarrow> True
            | Some v \<Rightarrow> py_lower E (py_str (repr_inner E) v) = ''true'')"
proof -
  obtain kvs where d: "request_data rq = JObj kvs"
    using assms
    by (cases "request_data rq")
      (simp_all add: iso_parse_def Let_def py_get_def raise_def)
  have all: "in_data i = request_data rq
      \<and> in_move_to_start i =
           (case map_of kvs ''move_to_start'' of
              None \<Rightarrow> True
            | Some v \<Rightarrow> py_lower E (py_str (repr_inner E) v) = ''true'')
      \<and> in_move_to_complete i =
           (case map_of kvs ''move_to_complete'' of
              None \<Rightarrow> True
            | Some v \<Rightarrow> py_lower E (py_str (repr_inner E) v) = ''true'')"
    using assms unfolding iso_parse_def Let_def d
    by (auto simp: bindE_def lift_def ret_def py_get_JObj final_flag_JObj
        split: prod.splits sum.splits if_splits)
  show "in_data i = request_data rq" using all by simp
  then show "is_dict (in_data i)" by (simp add: d is_dict_def)
  show "in_move_to_start i =
           (case supplied (request_data rq) ''move_to_start'' of
              None \<Rightarrow> True
            | Some v \<Rightarrow> py_lower E (py_str (repr_inner E) v) = ''true'')"
    using all by (simp add: d supplied_def)
  show "in_move_to_complete i =
           (case supplied (request_data rq) ''move_to_complete'' of
              None \<Rightarrow> True
            | Some v \<Rightarrow> py_lower E (py_str (repr_inner E) v) = ''true'')"
    using all by (simp add: d supplied_def)
qed

lemma pick_condition_field:
  assumes "is_dict d" "py_get d ''condition'' (JStr []) = Inr c"
  shows "pick_condition c comments = pick_condition (field d ''condition'') comments"
  using assms
  by (auto simp: is_dict_def py_get_def field_def pick_condition_def
      split: json.splits option.splits)

lemma py_get_dict: "is_dict d \<Longrightarrow> \<exists>c. py_get d k dflt = Inr c"
  by (auto simp: is_dict_def py_get_def split: json.splits option.splits)

text \<open>
  C3, as stated, fails where it says which identifiers \<open>blobs\<close> holds. Two images, a
  vendor that accepts both uploads and refuses every attach: both images were
  successfully uploaded (as \<open>u0.jpg\<close> and \<open>u1.jpg\<close>), login, identifier resolution, the
  checklist save and the status changes succeed, and the response is \<open>ok: true\<close> with an
  empty \<open>blobs\<close> list; both images are reported in \<open>upload_errors\<close>.
\<close>

theorem attach_failure_drops_uploaded_blob:
  "fst (dvi_iso_inspection (env_of attach_refusing_vendor) shipped_config two_images_request
          two_images_world) =
     Respond 200 (JObj
        [(''ok'', JBool True),
         (''ro_number'', JStr ''12345''),
         (''title'', JStr ''ISO Vehicle Inspection''),
         (''labor_id'', JStr ''e96a6a31-2400-47d4-84bd-155fccdb933b''),
         (''item_id'', JStr ''7dfec4da-e129-4bff-860f-f3f1c440708b''),
         (''blobs'', JArr []),
         (''upload_errors'',
            JArr [JStr ''Failed to upload/attach a.jpg: SaveChecklistImageCloud failed: 500 item is locked'',
                  JStr ''Failed to upload/attach b.jpg: SaveChecklistImageCloud failed: 500 item is locked'']),
         (''checklist'', JObj [(''raw'', JStr ''OK'')]),
         (''status_changes'', JObj [(''start'', JStr ''OK''), (''iso_complete'', JStr ''OK'')])])
   \<and> fst (save_media (env_of attach_refusing_vendor) (JStr ''tok'') (JStr ''a.jpg'') None
            (two_images_world\<lparr>w_calls := [Login]\<rparr>))
     = Inr ''u0.jpg''
   \<and> uploaded_blobs
       (image_results (env_of attach_refusing_vendor) (JStr ''tok'') (JStr ''12345'')
          (JStr ''e96a6a31-2400-47d4-84bd-155fccdb933b'')
          (JStr ''7dfec4da-e129-4bff-860f-f3f1c440708b'')
          [JStr ''a.jpg'', JStr ''b.jpg''] (two_images_world\<lparr>w_calls := [Login]\<rparr>))
     = [''u0.jpg'', ''u1.jpg'']"
  by code_simp

text \<open>
  C3, amended. In the ISO-inspection endpoint of \<open>dvi_server_final.py\<close>, suppose the
  request was parsed (it carries a \<open>ro_number\<close>, staging and the request log line did not
  raise), login and identifier resolution succeed, the log line of the resolution and the
  log line of every failed image are written without error, and the checklist-text save
  and the status changes succeed. Then every image is processed, in input order: when its
  upload or its attach raises, the message \<open>Failed to upload/attach <path>: <exception
  message>\<close> is appended to \<open>upload_errors\<close> and the next image is processed. The response
  is 200 with \<open>ok: true\<close>; \<open>blobs\<close> holds exactly the identifiers of the images that were
  both uploaded and attached, in input order (an image whose upload succeeded and whose
  attach failed is not among them), and \<open>upload_errors\<close> holds one entry per image whose
  upload or attach failed.
\<close>

theorem upload_failures_are_isolated:
  fixes E :: env and token labor_id item_id :: json and i :: iso_inputs and w2 :: world
  defines "outs \<equiv>
    image_results E token (in_ro_number i) labor_id item_id (in_image_paths i) w2"
  assumes parsed: "iso_parse E rq w0 = (Inr (Some i), w)"
    and login: "dvi_login E w = (Inr token, w1)"
    and ids: "resolve_iso_labor_and_item E C token (in_ro_number i) w1
                = (Inr (labor_id, item_id), w2)"
    and logged: "print_raises E (resolved_msg E labor_id item_id (in_ro_number i)) = None"
    and logs: "\<forall>pe\<in>set (failures outs).
                 print_raises E (upload_error_msg E (fst pe) (snd pe)) = None"
    and saved: "save_checklist E token (in_ro_number i) labor_id item_id
                  (pick_condition (field (in_data i) ''condition'') (in_comments i))
                  (in_comments i) ''R''
                  (after_images E token (in_ro_number i) labor_id item_id (in_image_paths i) w2)
                = (Inr checklist, w4)"
    and moved: "status_moves E token (in_ro_number i) (in_move_to_start i)
                  (in_move_to_complete i) w4 = (Inr changes, w5)"
  shows "dvi_iso_inspection E C rq w0 =
           (Respond 200 (JObj
              [(''ok'', JBool True),
               (''ro_number'', in_ro_number i),
               (''title'', in_title i),
               (''labor_id'', labor_id),
               (''item_id'', item_id),
               (''blobs'', JArr (map JStr (attached_blobs outs))),
               (''upload_errors'',
                  JArr (map JStr (map (\<lambda>pe. upload_error_msg E (fst pe) (snd pe)) (failures outs)))),
               (''checklist'', checklist),
               (''status_changes'', JObj changes)]),
            cleanup E (in_image_paths i) w5)
       \<and> map fst outs = in_image_paths i
       \<and> length (attached_blobs outs) + length (failures outs) = length (in_image_paths i)
       \<and> (\<forall>pe\<in>set (failures outs).
             py_in (py_str (repr_inner E) (fst pe)) (upload_error_msg E (fst pe) (snd pe))
           \<and> py_in (exn_msg (snd pe)) (upload_error_msg E (fst pe) (snd pe)))"
proof -
  from iso_parse_data[OF parsed] have dict: "is_dict (in_data i)" by blast
  from py_get_dict[OF dict] obtain c where
    cond: "py_get (in_data i) ''condition'' (JStr []) = Inr c" by blast
  note pc = pick_condition_field[OF dict cond]
  have loop: "upload_images E token (in_ro_number i) labor_id item_id (in_image_paths i) ([], []) w2
      = (Inr (attached_blobs outs, map (\<lambda>pe. upload_error_msg E (fst pe) (snd pe)) (failures outs)),
         after_images E token (in_ro_number i) labor_id item_id (in_image_paths i) w2)"
    using upload_images_results[OF logs[unfolded outs_def], of "([], [])"]
    unfolding outs_def by simp
  have run: "iso_try E C (in_data i) (in_ro_number i) (in_title i) (in_comments i)
             (in_image_paths i) (in_move_to_start i) (in_move_to_complete i) w =
        (Inr (JObj
              [(''ok'', JBool True),
               (''ro_number'', in_ro_number i),
               (''title'', in_title i),
               (''labor_id'', labor_id),
               (''item_id'', item_id),
               (''blobs'', JArr (map JStr (attached_blobs outs))),
               (''upload_errors'',
                  JArr (map JStr (map (\<lambda>pe. upload_error_msg E (fst pe) (snd pe)) (failures outs)))),
               (''checklist'', checklist),
               (''status_changes'', JObj changes)]), w5)"
    unfolding iso_try_def
    by (simp add: bindE_def login ids log_ok[OF logged] loop cond lift_def pc saved moved ret_def)
  have cnt: "length (attached_blobs outs) + length (failures outs) = length (in_image_paths i)"
    using results_count[of outs]
      results_paths[of E token "in_ro_number i" labor_id item_id "in_image_paths i" w2]
    unfolding outs_def by (metis length_map)
  show ?thesis
    using cnt
    by (simp add: dvi_iso_inspection_def parsed iso_run_def run error_msg_mentions)
       (simp add: outs_def results_paths)
qed

text \<open>
  Three images: the vendor answers 500 to the upload of the first and to the attach of
  the second, and accepts the third. The response is \<open>ok: true\<close>, \<open>blobs\<close> holds the
  identifier of the third image only, \<open>upload_errors\<close> names \<open>a.jpg\<close> and \<open>b.jpg\<close>, and
  the checklist save and both status changes were still sent.
\<close>

theorem upload_failures_are_isolated_witness:
  "dvi_iso_inspection (env_of fussy_vendor) shipped_config three_images_request three_images_world =
     (Respond 200 (JObj
        [(''ok'', JBool True),
         (''ro_number'', JStr ''12345''),
         (''title'', JStr ''ISO Vehicle Inspection''),
         (''labor_id'', JStr ''e96a6a31-2400-47d4-84bd-155fccdb933b''),
         (''item_id'', JStr ''7dfec4da-e129-4bff-860f-f3f1c440708b''),
         (''blobs'', JArr [JStr ''u2.jpg'']),
         (''upload_errors'',
            JArr [JStr ''Failed to upload/attach a.jpg: 500 Server Error: Internal Server Error for url: https://api.rowriter.com/v2/BlobStorage/SaveMedia'',
                  JStr ''Failed to upload/attach b.jpg: SaveChecklistImageCloud failed: 500 item is locked'']),
         (''checklist'', JObj [(''raw'', JStr ''OK'')]),
         (''status_changes'', JObj [(''start'', JStr ''OK''), (''iso_complete'', JStr ''OK'')])]),
      \<lparr>w_calls =
         [Login,
          SaveMedia (JStr ''tok'') ''u0.jpg'' ''bad'',
          SaveMedia (JStr ''tok'') ''u1.jpg'' ''fine'',
          SaveChecklistImageCloud (JStr ''tok'') (JStr ''12345'')
            (JStr ''e96a6a31-2400-47d4-84bd-155fccdb933b'')
            (JStr ''7dfec4da-e129-4bff-860f-f3f1c440708b'') ''u1.jpg'' ''R'',
          SaveMedia (JStr ''tok'') ''u2.jpg'' ''good'',
          SaveChecklistImageCloud (JStr ''tok'') (JStr ''12345'')
            (JStr ''e96a6a31-2400-47d4-84bd-155fccdb933b'')
            (JStr ''7dfec4da-e129-4bff-860f-f3f1c440708b'') ''u2.jpg'' ''R'',
          SaveChecklist (JStr ''tok'') (JStr ''12345'')
            (JStr ''e96a6a31-2400-47d4-84bd-155fccdb933b'')
            (JStr ''7dfec4da-e129-4bff-860f-f3f1c440708b'')
            (JStr ''Brake pads worn'') (JStr ''Failed Inspection'') ''R'',
          ChangeStatus (JStr ''tok'') (JStr ''12345'') ''3'' ''R'',
          ChangeStatus (JStr ''tok'') (JStr ''12345'') ''4'' ''R''],
       w_files = [(''a.jpg'', ''bad''), (''b.jpg'', ''fine''), (''c.jpg'', ''good'')],
       w_uuids = 3\<rparr>)"
proof -
  let ?E = "env_of fussy_vendor"
  let ?i = "three_images_inputs"
  let ?tok = "JStr ''tok''"
  let ?lab = "JStr ''e96a6a31-2400-47d4-84bd-155fccdb933b''"
  let ?itm = "JStr ''7dfec4da-e129-4bff-860f-f3f1c440708b''"
  define w1 where "w1 = snd (dvi_login ?E three_images_world)"
  define w4 where "w4 = snd (save_checklist ?E ?tok (in_ro_number ?i) ?lab ?itm
                  (pick_condition (field (in_data ?i) ''condition'') (in_comments ?i))
                  (in_comments ?i) ''R''
                  (after_images ?E ?tok (in_ro_number ?i) ?lab ?itm (in_image_paths ?i) w1))"
  define w5 where "w5 = snd (status_moves ?E ?tok (in_ro_number ?i) (in_move_to_start ?i)
                  (in_move_to_complete ?i) w4)"
  have parsed: "iso_parse ?E three_images_request three_images_world
                  = (Inr (Some ?i), three_images_world)"
    by code_simp
  have login: "dvi_login ?E three_images_world = (Inr ?tok, w1)"
    unfolding w1_def by code_simp
  have ids: "resolve_iso_labor_and_item ?E shipped_config ?tok (in_ro_number ?i) w1
               = (Inr (?lab, ?itm), w1)"
    by (simp add: resolve_iso_labor_and_item_def shipped_config_def ret_def)
  have logged: "print_raises ?E (resolved_msg ?E ?lab ?itm (in_ro_number ?i)) = None"
    by (simp add: env_of_def)
  have logs: "\<forall>pe\<in>set (failures (image_results ?E ?tok (in_ro_number ?i) ?lab ?itm
                                   (in_image_paths ?i) w1)).
                 print_raises ?E (upload_error_msg ?E (fst pe) (snd pe)) = None"
    by (simp add: env_of_def)
  have saved: "save_checklist ?E ?tok (in_ro_number ?i) ?lab ?itm
                  (pick_condition (field (in_data ?i) ''condition'') (in_comments ?i))
                  (in_comments ?i) ''R''
                  (after_images ?E ?tok (in_ro_number ?i) ?lab ?itm (in_image_paths ?i) w1)
                = (Inr (JObj [(''raw'', JStr ''OK'')]), w4)"
    unfolding w4_def w1_def by code_simp
  have moved: "status_moves ?E ?tok (in_ro_number ?i) (in_move_to_start ?i)
                  (in_move_to_complete ?i) w4
                = (Inr [(''start'', JStr ''OK''), (''iso_complete'', JStr ''OK'')], w5)"
    unfolding w5_def w4_def w1_def by code_simp
  note t = upload_failures_are_isolated[OF parsed login ids logged logs saved moved, THEN conjunct1]
  show ?thesis
    unfolding t unfolding w5_def w4_def w1_def by code_simp
qed

text \<open>
  C1. The request of the end-to-end scenario, against a vendor that accepts everything,
  with the identifiers of \<open>config.py\<close>: the handler of \<open>dvi_server_final.py\<close> answers
  \<open>ok: true\<close> with empty \<open>blobs\<close> and \<open>upload_errors\<close>, and the vendor received the login,
  then the checklist save with condition \<open>Failed Inspection\<close>, then status 3, then status
  4: the move to status 3 comes after the checklist save, not before it.
\<close>

theorem e2e_status_start_follows_checklist_save:
  "dvi_iso_inspection (env_of accepting_vendor) shipped_config e2e_request w_init =
     (Respond 200 (JObj
        [(''ok'', JBool True),
         (''ro_number'', JStr ''12345''),
         (''title'', JStr ''ISO Vehicle Inspection''),
         (''labor_id'', JStr ''e96a6a31-2400-47d4-84bd-155fccdb933b''),
         (''item_id'', JStr ''7dfec4da-e129-4bff-860f-f3f1c440708b''),
         (''blobs'', JArr []),
         (''upload_errors'', JArr []),
         (''checklist'', JObj [(''raw'', JStr ''OK'')]),
         (''status_changes'', JObj [(''start'', JStr ''OK''), (''iso_complete'', JStr ''OK'')])]),
      \<lparr>w_calls =
         [Login,
          SaveChecklist (JStr ''tok'') (JStr ''12345'')
            (JStr ''e96a6a31-2400-47d4-84bd-155fccdb933b'')
            (JStr ''7dfec4da-e129-4bff-860f-f3f1c440708b'')
            (JStr ''Brake pads worn'') (JStr ''Failed Inspection'') ''R'',
          ChangeStatus (JStr ''tok'') (JStr ''12345'') ''3'' ''R'',
          ChangeStatus (JStr ''tok'') (JStr ''12345'') ''4'' ''R''],
       w_files = [],
       w_uuids = 0\<rparr>)"
  by code_simp

lemma stage_b64_returns:
  "\<forall>m. print_raises E m = None \<Longrightarrow> \<exists>ps w'. stage_b64 E imgs w = (Inr ps, w')"
proof (induction imgs arbitrary: w)
  case Nil
  then show ?case by (simp add: ret_def)
next
  case (Cons img imgs)
  have "\<exists>ps w1. catch (stage_b64_body E img)
                  (\<lambda>e. bindE (log E (''Base64 decode error: '' @ exn_msg e)) (\<lambda>u. ret [])) w
                = (Inr ps, w1)"
    using Cons.prems
    by (auto simp: catch_def ret_def bindE_def log_def split: prod.splits sum.splits)
  then obtain ps w1 where c: "catch (stage_b64_body E img)
      (\<lambda>e. bindE (log E (''Base64 decode error: '' @ exn_msg e)) (\<lambda>u. ret [])) w = (Inr ps, w1)"
    by blast
  from Cons.IH[OF Cons.prems, of w1] obtain qs w2 where "stage_b64 E imgs w1 = (Inr qs, w2)"
    by blast
  with c show ?case by (simp add: bindE_def ret_def)
qed

lemma stage_files_returns:
  "\<forall>p. can_create E p \<Longrightarrow> \<exists>ps w'. stage_files E fs w = (Inr ps, w')"
proof (induction fs arbitrary: w)
  case Nil
  then show ?case by (simp add: ret_def)
next
  case (Cons kf fs)
  show ?case
  proof (cases "up_filename (snd kf) = []")
    case True
    then show ?thesis using Cons by simp
  next
    case False
    let ?tmp = "norm_path (''./tmp_'' @ uuid_hex E (w_uuids w) @ ''.jpg'')"
    let ?w1 = "w\<lparr>w_uuids := Suc (w_uuids w),
                 w_files := fs_put (fs_resolve E ?tmp) (up_content (snd kf))
                              (fs_put (fs_resolve E ?tmp) [] (w_files w))\<rparr>"
    from Cons(1)[OF Cons(2), of ?w1] obtain ps w' where "stage_files E fs ?w1 = (Inr ps, w')"
      by blast
    then show ?thesis
      using False Cons(2)
      by (simp add: bindE_def uuid4_hex_def create_file_def write_file_def Let_def ret_def)
  qed
qed

lemma iso_parse_returns:
  assumes "is_dict (request_data rq)" "\<forall>p. can_create E p" "\<forall>m. print_raises E m = None"
  shows "\<exists>r w'. iso_parse E rq w = (Inr r, w')"
proof -
  from assms(1) obtain kvs where d: "request_data rq = JObj kvs"
    by (auto simp: is_dict_def split: json.splits)
  obtain ps w1 where sf: "stage_files E (request_files rq) w = (Inr ps, w1)"
    using stage_files_returns[OF assms(2)] by blast
  let ?imgs = "case (case map_of kvs ''images_base64'' of None \<Rightarrow> JArr [] | Some v \<Rightarrow> v) of
                 JArr imgs \<Rightarrow> imgs | _ \<Rightarrow> []"
  obtain qs w2 where sb: "stage_b64 E ?imgs w1 = (Inr qs, w2)"
    using stage_b64_returns[OF assms(3)] by blast
  show ?thesis
    unfolding iso_parse_def Let_def d
    using assms(3)
    by (simp add: py_get_JObj bindE_def lift_def ret_def sf sb final_flag_JObj log_def)
qed

lemma iso_try_ok:
  "iso_try E C data ro title comments paths s c w = (Inr body, w') \<Longrightarrow> field body ''ok'' = JBool True"
  unfolding iso_try_def
  by (auto simp: bindE_def ret_def lift_def field_def split: prod.splits sum.splits)

text \<open>
  Where the handler does answer: when the parsed body is a dict (a JSON object, a form, or
  a missing, unreadable or falsy body, which is replaced by \<open>{}\<close>), the staging files can
  be created and every log line can be written, the view function returns a JSON body
  with a boolean \<open>ok\<close>: status 200 with \<open>ok: true\<close>, or status 400 or 500 with
  \<open>ok: false\<close> and an \<open>error\<close> string.
\<close>

lemma iso_inspection_responds_to_object_bodies:
  assumes "is_dict (request_data rq)" "\<forall>p. can_create E p" "\<forall>m. print_raises E m = None"
  shows "\<exists>st body. fst (dvi_iso_inspection E C rq w) = Respond st body
           \<and> (if st = 200 then field body ''ok'' = JBool True
              else (st = 400 \<or> st = 500) \<and> field body ''ok'' = JBool False
                   \<and> (\<exists>m. field body ''error'' = JStr m))"
proof -
  from iso_parse_returns[OF assms] obtain r w1 where p: "iso_parse E rq w = (Inr r, w1)" by blast
  show ?thesis
  proof (cases r)
    case None
    then show ?thesis
      by (simp add: dvi_iso_inspection_def p error_body_def field_def)
  next
    case (Some i)
    obtain res w2 where t: "iso_try E C (in_data i) (in_ro_number i) (in_title i) (in_comments i)
             (in_image_paths i) (in_move_to_start i) (in_move_to_complete i) w1 = (res, w2)"
      by (cases "iso_try E C (in_data i) (in_ro_number i) (in_title i) (in_comments i)
             (in_image_paths i) (in_move_to_start i) (in_move_to_complete i) w1")
    show ?thesis
    proof (cases res)
      case (Inl e)
      then show ?thesis
        using Some t assms(3)
        by (simp add: dvi_iso_inspection_def p iso_run_def error_body_def field_def log_def)
    next
      case (Inr body)
      with t iso_try_ok have "field body ''ok'' = JBool True" by blast
      then show ?thesis
        using Some t Inr by (simp add: dvi_iso_inspection_def p iso_run_def)
    qed
  qed
qed

text \<open>
  C2. A request whose JSON body is the list \<open>[1]\<close>: \<open>data.get("ro_number")\<close> runs before
  the handler's \<open>try\<close>, so the \<open>AttributeError\<close> leaves the view function of
  \<open>dvi_server_final.py\<close>; no JSON body is returned.
\<close>

theorem list_body_escapes_handler:
  "dvi_iso_inspection E C (json_request (JArr [JInt 1])) w =
     (Propagates (Exn ''AttributeError''
        (sq @ ''list'' @ sq @ '' object has no attribute '' @ sq @ ''get'' @ sq)), w)"
proof -
  have ct: "\<not> py_in ''multipart/form-data'' ''application/json''"
    by code_simp
  show ?thesis
    by (simp add: dvi_iso_inspection_def iso_parse_def request_data_def json_request_def
        is_multipart_def ct py_get_def attribute_error_def raise_def)
qed

text \<open>
  C9. A request with one base64 image that does not decode (\<open>abc\<close>: incorrect padding):
  the staging file is opened before the decoding fails and is never added to the list the
  \<open>finally\<close> block walks, so the handler of \<open>dvi_server_final.py\<close> answers \<open>ok: true\<close> and
  the empty file \<open>tmp_u1_img_u0.jpg\<close> is still on disk.
\<close>

theorem failed_decode_leaves_temp_file:
  "w_files (snd (dvi_iso_inspection (env_of accepting_vendor) shipped_config
       (json_request (JObj [(''ro_number'', JStr ''12345''),
                            (''images_base64'', JArr [JStr ''abc''])])) w_init))
     = [(''tmp_u1_img_u0.jpg'', [])]
   \<and> b64decode (env_of accepting_vendor) (JStr ''abc'') = Inl (Exn ''Error'' ''Incorrect padding'')
   \<and> startswith ''tmp_u1_img_u0.jpg'' ''tmp_''"
  by code_simp

end
